theory Spec2Isabelle
  imports Complex_Main "HOL-Library.Log_Nat"
begin

section \<open>Python values used by the cost-optimisation tool\<close>

subsection \<open>Floats\<close>

text \<open>
  A Python \<^verbatim>\<open>float\<close> is an IEEE 754 binary64 number. A finite one is a rational
  \<open>m * 2 ^ q\<close> with a mantissa of at most 53 bits, so finite floats are modelled as the
  rationals they denote, and every arithmetic operation rounds its exact result to the
  nearest such rational, ties to the even mantissa, as the hardware does. Comparisons
  (\<^verbatim>\<open><\<close>, \<^verbatim>\<open>max\<close>) are exact on floats, so they are the comparisons of \<open>rat\<close>.

  The exponent range is not modelled: \<open>rnd\<close> rounds to 53 bits of precision at every
  magnitude. The model therefore agrees with the interpreter whenever the exact results
  stay within the normal range of binary64 (between \<open>2 ^ -1022\<close> and \<open>2 ^ 1024\<close> in
  absolute value, or zero), which CPU percentages and hourly prices do. The values
  \<^verbatim>\<open>inf\<close>, \<^verbatim>\<open>nan\<close> and \<^verbatim>\<open>-0.0\<close> are outside the model.
\<close>

definition round_half_even :: "rat \<Rightarrow> int" where
  "round_half_even x =
     (let f = \<lfloor>x\<rfloor>; d = x - of_int f
      in if d < 1 / 2 then f else if 1 / 2 < d then f + 1 else if even f then f else f + 1)"

text \<open>The binary exponent \<open>e\<close> of a non-zero rational: \<open>2 ^ e \<le> \<bar>x\<bar> < 2 ^ (e + 1)\<close>.\<close>

definition float_exponent :: "rat \<Rightarrow> int" where
  "float_exponent x =
     (let (p, q) = quotient_of \<bar>x\<bar>; d = bitlen p - bitlen q
      in if 2 powi d \<le> \<bar>x\<bar> then d else d - 1)"

definition rnd :: "rat \<Rightarrow> rat" where
  "rnd x = (if x = 0 then 0
            else let q = float_exponent x - 52
                 in of_int (round_half_even (x / 2 powi q)) * 2 powi q)"

text \<open>
  The unit roundoff of binary64: half the distance between \<open>1\<close> and the next float, and
  the bound on the relative error of one rounding.
\<close>

definition unit_roundoff :: rat where
  "unit_roundoff = 1 / 2 ^ 53"

definition fadd :: "rat \<Rightarrow> rat \<Rightarrow> rat" where
  "fadd x y = rnd (x + y)"

definition fsub :: "rat \<Rightarrow> rat \<Rightarrow> rat" where
  "fsub x y = rnd (x - y)"

definition fmul :: "rat \<Rightarrow> rat \<Rightarrow> rat" where
  "fmul x y = rnd (x * y)"

text \<open>
  \<^verbatim>\<open>x / y\<close> raises \<^verbatim>\<open>ZeroDivisionError\<close> when \<open>y\<close> is zero. Both divisions of the
  program have a divisor that is not zero (the length of a non-empty list, and a price that
  passed a truthiness test), so the quotient is modelled as a total function.
\<close>

definition fdiv :: "rat \<Rightarrow> rat \<Rightarrow> rat" where
  "fdiv x y = rnd (x / y)"

text \<open>\<^verbatim>\<open>float(n)\<close> of an integer, as in \<^verbatim>\<open>total / len(xs)\<close>.\<close>

definition float_of_nat :: "nat \<Rightarrow> rat" where
  "float_of_nat n = rnd (of_nat n)"

text \<open>\<^verbatim>\<open>float(s)\<close> of a decimal string denoting the rational \<open>d\<close>: the nearest float.\<close>

definition float_of_decimal :: "rat \<Rightarrow> rat" where
  "float_of_decimal d = rnd d"

text \<open>
  \<^verbatim>\<open>sum(xs)\<close> on CPython up to 3.11: it starts from the integer \<open>0\<close> and adds from left
  to right.
\<close>

definition py_sum :: "rat list \<Rightarrow> rat" where
  "py_sum xs = foldl fadd 0 xs"

text \<open>
  \<^verbatim>\<open>sum(xs)\<close> on CPython 3.12 and later: it adds floats with a compensation term
  (Neumaier's variant of Kahan summation), which it adds to the total at the end when it is
  not zero. The two agree on many inputs and differ on others: ten times \<^verbatim>\<open>0.1\<close> gives
  \<^verbatim>\<open>0.9999999999999999\<close> with the first and \<^verbatim>\<open>1.0\<close> with the second.
\<close>

definition neumaier_step :: "rat \<times> rat \<Rightarrow> rat \<Rightarrow> rat \<times> rat" where
  "neumaier_step state x =
     (let (f_result, c) = state;
          t = fadd f_result x;
          c = (if \<bar>x\<bar> \<le> \<bar>f_result\<bar> then fadd c (fadd (fsub f_result t) x)
               else fadd c (fadd (fsub x t) f_result))
      in (t, c))"

definition py_sum_compensated :: "rat list \<Rightarrow> rat" where
  "py_sum_compensated xs =
     (let (f_result, c) = foldl neumaier_step (0, 0) xs
      in if c \<noteq> 0 then fadd f_result c else f_result)"

text \<open>
  \<^verbatim>\<open>max(xs)\<close> keeps the first of the largest elements. The program applies it to
  non-empty sequences only.
\<close>

fun py_max :: "rat list \<Rightarrow> rat" where
  "py_max [] = 0"
| "py_max (x # xs) = foldl (\<lambda>m y. if m < y then y else m) x xs"

text \<open>
  \<^verbatim>\<open>round(x, n)\<close> rounds the exact value of \<open>x\<close> to \<open>n\<close> decimals, ties to even, and
  returns the float nearest to that decimal.
\<close>

definition py_round :: "rat \<Rightarrow> nat \<Rightarrow> rat" where
  "py_round x n = rnd (of_int (round_half_even (x * 10 ^ n)) / 10 ^ n)"

subsection \<open>Strings\<close>

text \<open>
  A \<^verbatim>\<open>str\<close> is modelled by the bytes of its UTF-8 encoding. Equality, concatenation
  and splitting at the ASCII character \<^verbatim>\<open>.\<close> agree on code points and on UTF-8 bytes.
\<close>

definition digit_char :: "nat \<Rightarrow> char" where
  "digit_char n = char_of (48 + n)"

fun digits_of :: "nat \<Rightarrow> string" where
  "digits_of n = (if n < 10 then [digit_char n] else digits_of (n div 10) @ [digit_char (n mod 10)])"

declare digits_of.simps [simp del]

definition zero_pad :: "nat \<Rightarrow> string \<Rightarrow> string" where
  "zero_pad w s = replicate (w - length s) (CHR ''0'') @ s"

text \<open>
  The format specification \<^verbatim>\<open>.df\<close> (as in \<^verbatim>\<open>f"{x:.1f}"\<close>) prints the exact value of
  the float rounded to \<open>d\<close> decimals, ties to even, with a sign for negative values.
\<close>

definition format_fixed :: "nat \<Rightarrow> rat \<Rightarrow> string" where
  "format_fixed d x =
     (let n = nat (round_half_even (\<bar>x\<bar> * 10 ^ d));
          body = digits_of (n div 10 ^ d) @
                 (if d = 0 then [] else CHR ''.'' # zero_pad d (digits_of (n mod 10 ^ d)))
      in if x < 0 then CHR ''-'' # body else body)"

text \<open>\<^verbatim>\<open>s.split(sep)\<close> for a separator of one character.\<close>

fun split_on :: "char \<Rightarrow> string \<Rightarrow> string list" where
  "split_on sep [] = [[]]"
| "split_on sep (c # cs) =
     (if c = sep then [] # split_on sep cs
      else (case split_on sep cs of [] \<Rightarrow> [[c]] | w # ws \<Rightarrow> (c # w) # ws))"

text \<open>\<^verbatim>\<open>sep.join(xs)\<close>.\<close>

fun py_join :: "string \<Rightarrow> string list \<Rightarrow> string" where
  "py_join sep [] = []"
| "py_join sep [x] = x"
| "py_join sep (x # y # ys) = x @ sep @ py_join sep (y # ys)"

section \<open>Data model\<close>

text \<open>
  An instance as built by \<^verbatim>\<open>get_all_instances\<close>: a dictionary with the keys
  \<^verbatim>\<open>InstanceId\<close>, \<^verbatim>\<open>InstanceType\<close>, \<^verbatim>\<open>LaunchTime\<close> (a timestamp, opaque here)
  and \<^verbatim>\<open>Tags\<close> (a dictionary from tag keys to tag values).
\<close>

record ec2_instance =
  InstanceId :: string
  InstanceType :: string
  LaunchTime :: int
  Tags :: "string \<rightharpoonup> string"

text \<open>One daily data point of the CloudWatch response.\<close>

record datapoint =
  Timestamp :: int
  Average :: rat
  Maximum :: rat

text \<open>An exception, with the text that \<^verbatim>\<open>str(e)\<close> prints.\<close>

datatype exn = Exn (message: string)

text \<open>
  The telemetry source: what \<^verbatim>\<open>cloudwatch.get_metric_statistics\<close> does for an instance
  identifier and a window in days. It raises, or it returns the list under
  \<^verbatim>\<open>Datapoints\<close>.
\<close>

type_synonym telemetry = "string \<Rightarrow> nat \<Rightarrow> exn + datapoint list"

text \<open>
  The pricing catalogue: what happens inside the \<^verbatim>\<open>try\<close> block of
  \<^verbatim>\<open>get_instance_type_info\<close> for an instance type. The request or the parsing of its
  answer raises (also \<^verbatim>\<open>float\<close> of a malformed string); or the price list is empty;
  or the \<^verbatim>\<open>USD\<close> entry is missing or is the empty string; or it is a decimal string,
  given by the rational it denotes.
\<close>

datatype catalog_answer = Lookup_raises exn | Empty_price_list | Usd_missing | Usd rat

type_synonym catalog = "string \<Rightarrow> catalog_answer"

text \<open>A row of the report: the dictionary appended to \<^verbatim>\<open>results\<close>.\<close>

record report_row =
  row_InstanceId :: string
  row_Name :: string
  row_InstanceType :: string
  row_AvgCPU :: rat
  row_MaxCPU :: rat
  row_Recommendations :: string

section \<open>Utilization sampler\<close>

text \<open>
  \<^verbatim>\<open>get_instance_metrics(instance_id, days=14)\<close>, on CPython up to 3.11. An exception
  of the query is not caught here. The result is the pair \<^verbatim>\<open>(None, None)\<close> or
  \<^verbatim>\<open>(avg_util, max_util)\<close>.
\<close>

definition get_instance_metrics ::
  "telemetry \<Rightarrow> string \<Rightarrow> nat \<Rightarrow> exn + (rat option \<times> rat option)" where
  "get_instance_metrics cloudwatch instance_id days =
     (case cloudwatch instance_id days of
        Inl e \<Rightarrow> Inl e
      | Inr datapoints \<Rightarrow>
          if datapoints = [] then Inr (None, None)
          else
            let avg_util = fdiv (py_sum (map Average datapoints)) (float_of_nat (length datapoints));
                max_util = py_max (map Maximum datapoints)
            in Inr (Some avg_util, Some max_util))"

text \<open>
  The same function on CPython 3.12 and later, where \<^verbatim>\<open>sum\<close> adds with compensation.
  The two samplers differ in the average only.
\<close>

definition get_instance_metrics_compensated ::
  "telemetry \<Rightarrow> string \<Rightarrow> nat \<Rightarrow> exn + (rat option \<times> rat option)" where
  "get_instance_metrics_compensated cloudwatch instance_id days =
     (case cloudwatch instance_id days of
        Inl e \<Rightarrow> Inl e
      | Inr datapoints \<Rightarrow>
          if datapoints = [] then Inr (None, None)
          else
            let avg_util = fdiv (py_sum_compensated (map Average datapoints))
                             (float_of_nat (length datapoints));
                max_util = py_max (map Maximum datapoints)
            in Inr (Some avg_util, Some max_util))"

section \<open>Pricing lookup\<close>

text \<open>
  \<^verbatim>\<open>get_instance_type_info(instance_type)\<close>: every exception is caught and gives
  \<^verbatim>\<open>None\<close>. The diagnostic line it prints in that case is not part of the model.
\<close>

definition get_instance_type_info :: "catalog \<Rightarrow> string \<Rightarrow> rat option" where
  "get_instance_type_info pricing instance_type =
     (case pricing instance_type of
        Lookup_raises e \<Rightarrow> None
      | Empty_price_list \<Rightarrow> None
      | Usd_missing \<Rightarrow> None
      | Usd d \<Rightarrow> Some (float_of_decimal d))"

section \<open>Recommendation engine\<close>

definition underutilized_line :: "rat \<Rightarrow> string" where
  "underutilized_line max_util = ''Underutilized (Max CPU: '' @ format_fixed 1 max_util @ ''%)''"

text \<open>
  The down arrow is U+2B07 followed by the variation selector U+FE0F, the right arrow is
  U+2192.
\<close>

definition arrow_down :: string where
  "arrow_down = [CHR 0xE2, CHR 0xAC, CHR 0x87, CHR 0xEF, CHR 0xB8, CHR 0x8F]"

definition arrow_right :: string where
  "arrow_right = [CHR 0xE2, CHR 0x86, CHR 0x92]"

definition suggest_line :: "string \<Rightarrow> rat \<Rightarrow> rat \<Rightarrow> string" where
  "suggest_line new_type savings savings_percent =
     arrow_down @ '' Suggest: '' @ new_type @ '' '' @ arrow_right @ '' Save $'' @
     format_fixed 2 savings @ ''/hr ('' @ format_fixed 1 savings_percent @ ''%)''"

definition idle_line :: string where
  "idle_line = ''Consider stopping: appears unused''"

text \<open>\<^verbatim>\<open>current_type.split('.')[0]\<close>; the list that \<^verbatim>\<open>split\<close> returns is never empty.\<close>

definition family_of :: "string \<Rightarrow> string" where
  "family_of current_type = hd (split_on (CHR ''.'') current_type)"

definition potential_types :: "string \<Rightarrow> string list" where
  "potential_types family = [family @ ''.large'', family @ ''.medium'', family @ ''.small'']"

text \<open>
  The loop over \<^verbatim>\<open>potential_types\<close>, with the list \<^verbatim>\<open>recommendations\<close> as its state.
  In \<^verbatim>\<open>new_price and current_price and new_price < current_price\<close> a price is false
  when it is \<^verbatim>\<open>None\<close> and also when it is \<^verbatim>\<open>0.0\<close>.
\<close>

fun suggest_loop :: "catalog \<Rightarrow> string \<Rightarrow> rat option \<Rightarrow> string list \<Rightarrow> string list \<Rightarrow> string list" where
  "suggest_loop pricing current_type current_price [] recommendations = recommendations"
| "suggest_loop pricing current_type current_price (new_type # rest) recommendations =
     (if new_type = current_type
      then suggest_loop pricing current_type current_price rest recommendations
      else
        (case (get_instance_type_info pricing new_type, current_price) of
           (Some new_price, Some cur_price) \<Rightarrow>
             if new_price \<noteq> 0 \<and> cur_price \<noteq> 0 \<and> new_price < cur_price
             then
               let savings = fsub cur_price new_price;
                   savings_percent = fmul (fdiv savings cur_price) 100
               in suggest_loop pricing current_type current_price rest
                    (recommendations @ [suggest_line new_type savings savings_percent])
             else suggest_loop pricing current_type current_price rest recommendations
         | _ \<Rightarrow> suggest_loop pricing current_type current_price rest recommendations))"

definition get_recommendations :: "catalog \<Rightarrow> ec2_instance \<Rightarrow> rat \<Rightarrow> rat \<Rightarrow> string list" where
  "get_recommendations pricing instance avg_util max_util =
     (let recommendations = [];
          current_type = InstanceType instance;
          recommendations =
            (if max_util < 40
             then
               let recommendations = recommendations @ [underutilized_line max_util];
                   current_price = get_instance_type_info pricing current_type;
                   family = family_of current_type
               in suggest_loop pricing current_type current_price (potential_types family)
                    recommendations
             else recommendations)
      in if max_util < 10 then recommendations @ [idle_line] else recommendations)"

section \<open>Report assembler\<close>

definition no_recommendations :: string where
  "no_recommendations = [CHR 0xE2, CHR 0x9C, CHR 0x85] @ '' No recommendations''"

text \<open>
  The value stored under \<^verbatim>\<open>Recommendations\<close>: an empty list is false in the conditional
  expression.
\<close>

definition render_recommendations :: "string list \<Rightarrow> string" where
  "render_recommendations recommendations =
     (if recommendations \<noteq> [] then py_join [CHR 0x0A] recommendations else no_recommendations)"

text \<open>The text of the \<^verbatim>\<open>TypeError\<close> raised by \<^verbatim>\<open>None < 40\<close>.\<close>

definition none_less_int_message :: string where
  "none_less_int_message =
     CHR 0x27 # CHR ''<'' # CHR 0x27 # '' not supported between instances of '' @
     CHR 0x27 # ''NoneType'' @ CHR 0x27 # '' and '' @ CHR 0x27 # ''int'' @ [CHR 0x27]"

text \<open>
  The loop of \<^verbatim>\<open>analyze_instances\<close> over the inventory. Its state is the list
  \<^verbatim>\<open>results\<close> and the lines printed so far. The body is inside \<^verbatim>\<open>try\<close>; the handler
  prints the exception and the loop goes on. In the second component of a sampler result
  \<^verbatim>\<open>None\<close> next to an average would make the comparison in \<^verbatim>\<open>get_recommendations\<close>
  raise \<^verbatim>\<open>TypeError\<close>, which the same handler catches.
\<close>

fun analyze_loop ::
  "telemetry \<Rightarrow> catalog \<Rightarrow> ec2_instance list \<Rightarrow> report_row list \<times> string list \<Rightarrow>
   report_row list \<times> string list" where
  "analyze_loop cloudwatch pricing [] state = state"
| "analyze_loop cloudwatch pricing (instance # rest) (results, out) =
     (let instance_id = InstanceId instance;
          out = out @ ['' Analyzing '' @ instance_id @ ''...'']
      in case get_instance_metrics cloudwatch instance_id 14 of
           Inl e \<Rightarrow>
             analyze_loop cloudwatch pricing rest
               (results, out @ ['' Error with '' @ instance_id @ '': '' @ message e])
         | Inr (None, max_util) \<Rightarrow>
             analyze_loop cloudwatch pricing rest (results, out @ ['' No metrics found.''])
         | Inr (Some avg_util, None) \<Rightarrow>
             analyze_loop cloudwatch pricing rest
               (results, out @ ['' Error with '' @ instance_id @ '': '' @
                  none_less_int_message])
         | Inr (Some avg_util, Some max_util) \<Rightarrow>
             let recommendations = get_recommendations pricing instance avg_util max_util;
                 row = \<lparr> row_InstanceId = instance_id,
                         row_Name = (case Tags instance ''Name'' of None \<Rightarrow> [] | Some n \<Rightarrow> n),
                         row_InstanceType = InstanceType instance,
                         row_AvgCPU = py_round avg_util 1,
                         row_MaxCPU = py_round max_util 1,
                         row_Recommendations = render_recommendations recommendations \<rparr>
             in analyze_loop cloudwatch pricing rest (results @ [row], out))"

text \<open>
  \<^verbatim>\<open>analyze_instances\<close> up to the test of \<^verbatim>\<open>df.empty\<close>, for the inventory that
  \<^verbatim>\<open>get_all_instances\<close> returned: \<^verbatim>\<open>None\<close> for an empty report, the rows
  otherwise. The export of the report that follows (CSV file, upload, summary) is not
  modelled.
\<close>

definition analyze_instances :: "telemetry \<Rightarrow> catalog \<Rightarrow> ec2_instance list \<Rightarrow> report_row list option" where
  "analyze_instances cloudwatch pricing instances =
     (let (results, out) = analyze_loop cloudwatch pricing instances ([], [])
      in if results = [] then None else Some results)"

section \<open>Definitions used in the statements\<close>

text \<open>
  What one pass of the loop over \<^verbatim>\<open>potential_types\<close> appends for the candidate
  \<open>new_type\<close>, when the current price is the one that the catalogue gives for the current
  type: no line, or one suggestion line.
\<close>

definition downgrade_entry :: "catalog \<Rightarrow> string \<Rightarrow> string \<Rightarrow> string list" where
  "downgrade_entry pricing current_type new_type =
     suggest_loop pricing current_type (get_instance_type_info pricing current_type) [new_type] []"

text \<open>The sampler has data for an instance: the query returns, with at least one data point.\<close>

definition has_data :: "telemetry \<Rightarrow> ec2_instance \<Rightarrow> bool" where
  "has_data cloudwatch instance =
     (case cloudwatch (InstanceId instance) 14 of Inl e \<Rightarrow> False | Inr datapoints \<Rightarrow> datapoints \<noteq> [])"

text \<open>The result of the loop of \<^verbatim>\<open>analyze_instances\<close> on one instance, from an empty state.\<close>

definition analyze_one ::
  "telemetry \<Rightarrow> catalog \<Rightarrow> ec2_instance \<Rightarrow> report_row list \<times> string list" where
  "analyze_one cloudwatch pricing instance = analyze_loop cloudwatch pricing [instance] ([], [])"

subsection \<open>Concrete inputs\<close>

text \<open>The catalogue of the scenario with \<^verbatim>\<open>m5.large\<close> at 0.096 USD per hour.\<close>

definition m5_catalog :: catalog where
  "m5_catalog t =
     (if t = ''m5.large'' then Usd (96 / 1000)
      else if t = ''m5.medium'' then Usd (48 / 1000)
      else if t = ''m5.small'' then Usd (24 / 1000)
      else Empty_price_list)"

definition m5_large :: ec2_instance where
  "m5_large = \<lparr> InstanceId = ''i-0003'', InstanceType = ''m5.large'', LaunchTime = 0,
                Tags = [''Name'' \<mapsto> ''web''] \<rparr>"

text \<open>A catalogue whose entry for \<^verbatim>\<open>m5.medium\<close> is the string \<^verbatim>\<open>0.0000000000\<close>.\<close>

definition zero_price_catalog :: catalog where
  "zero_price_catalog t =
     (if t = ''m5.large'' then Usd (96 / 1000)
      else if t = ''m5.medium'' then Usd 0
      else Empty_price_list)"

text \<open>A type string without a delimiter, and a catalogue that has a price for it.\<close>

definition m5_bare :: ec2_instance where
  "m5_bare = \<lparr> InstanceId = ''i-0004'', InstanceType = ''m5'', LaunchTime = 0,
               Tags = Map.empty \<rparr>"

definition bare_catalog :: catalog where
  "bare_catalog t = (if t = ''m5'' then Usd (96 / 1000) else m5_catalog t)"

text \<open>Three daily data points, each with average and maximum \<^verbatim>\<open>0.1\<close>.\<close>

definition tenth :: rat where
  "tenth = float_of_decimal (1 / 10)"

definition flat_datapoints :: "datapoint list" where
  "flat_datapoints =
     [\<lparr> Timestamp = 0, Average = tenth, Maximum = tenth \<rparr>,
      \<lparr> Timestamp = 86400, Average = tenth, Maximum = tenth \<rparr>,
      \<lparr> Timestamp = 172800, Average = tenth, Maximum = tenth \<rparr>]"

definition flat_telemetry :: telemetry where
  "flat_telemetry instance_id days = Inr flat_datapoints"

text \<open>
  An inventory of three instances: the query for the first raises, the second has no data
  points, the third has two.
\<close>

definition scenario_datapoints :: "datapoint list" where
  "scenario_datapoints =
     [\<lparr> Timestamp = 0, Average = 20, Maximum = 35 \<rparr>,
      \<lparr> Timestamp = 86400, Average = 10, Maximum = 30 \<rparr>]"

definition scenario_telemetry :: telemetry where
  "scenario_telemetry instance_id days =
     (if instance_id = ''i-0001'' then Inl (Exn ''Throttling'')
      else if instance_id = ''i-0002'' then Inr []
      else Inr scenario_datapoints)"

definition scenario_inventory :: "ec2_instance list" where
  "scenario_inventory =
     [m5_large \<lparr> InstanceId := ''i-0001'' \<rparr>, m5_large \<lparr> InstanceId := ''i-0002'' \<rparr>, m5_large]"

section \<open>Properties of the float model\<close>

lemma round_half_even_ge_floor: "\<lfloor>x\<rfloor> \<le> round_half_even x"
  by (simp add: round_half_even_def Let_def)

lemma float_exponent_lower:
  assumes "x \<noteq> 0"
  shows "2 powi float_exponent x \<le> \<bar>x\<bar>"
proof -
  obtain p q where pq: "quotient_of \<bar>x\<bar> = (p, q)" by (cases "quotient_of \<bar>x\<bar>")
  have q: "0 < q" using pq quotient_of_denom_pos by blast
  have x: "\<bar>x\<bar> = of_int p / of_int q" using pq quotient_of_div by blast
  have "0 < \<bar>x\<bar>" using assms by simp
  then have p: "0 < p" using x q by (simp add: zero_less_divide_iff)
  define d where "d = bitlen p - bitlen q"
  show ?thesis
  proof (cases "2 powi d \<le> \<bar>x\<bar>")
    case True
    then show ?thesis by (simp add: float_exponent_def pq d_def)
  next
    case False
    have e: "float_exponent x = d - 1" using False by (simp add: float_exponent_def pq d_def)
    have bp: "1 \<le> bitlen p" using p by (simp add: bitlen_alt_def)
    have bq: "1 \<le> bitlen q" using q by (simp add: bitlen_alt_def)
    have lo: "(2::rat) ^ nat (bitlen p - 1) \<le> of_int p"
    proof -
      have "(2::int) ^ nat (bitlen p - 1) \<le> p" using bitlen_bounds [OF p] by simp
      then have "of_int ((2::int) ^ nat (bitlen p - 1)) \<le> (of_int p :: rat)" by (rule iffD2 [OF of_int_le_iff])
      then show ?thesis by simp
    qed
    have hi: "of_int q \<le> (2::rat) ^ nat (bitlen q)"
    proof -
      have "q \<le> (2::int) ^ nat (bitlen q)" using bitlen_bounds [OF q] by simp
      then have "(of_int q :: rat) \<le> of_int ((2::int) ^ nat (bitlen q))" by (rule iffD2 [OF of_int_le_iff])
      then show ?thesis by simp
    qed
    have "(2::rat) powi (d - 1) = 2 ^ nat (bitlen p - 1) / 2 ^ nat (bitlen q)"
    proof -
      have "d - 1 = int (nat (bitlen p - 1)) - int (nat (bitlen q))" using bp bq by (simp add: d_def)
      then have "(2::rat) powi (d - 1) = 2 powi (int (nat (bitlen p - 1)) - int (nat (bitlen q)))"
        by (rule arg_cong)
      also have "\<dots> = 2 powi int (nat (bitlen p - 1)) / 2 powi int (nat (bitlen q))"
        by (rule power_int_diff) simp
      finally show ?thesis by (simp only: power_int_of_nat)
    qed
    also have "\<dots> \<le> of_int p / of_int q"
      using lo hi q p by (intro frac_le) simp_all
    finally show ?thesis using e x by simp
  qed
qed

lemma float_exponent_upper:
  assumes "x \<noteq> 0"
  shows "\<bar>x\<bar> < 2 powi (float_exponent x + 1)"
proof -
  obtain p q where pq: "quotient_of \<bar>x\<bar> = (p, q)" by (cases "quotient_of \<bar>x\<bar>")
  have q: "0 < q" using pq quotient_of_denom_pos by blast
  have x: "\<bar>x\<bar> = of_int p / of_int q" using pq quotient_of_div by blast
  have "0 < \<bar>x\<bar>" using assms by simp
  then have p: "0 < p" using x q by (simp add: zero_less_divide_iff)
  define d where "d = bitlen p - bitlen q"
  have bp: "1 \<le> bitlen p" using p by (simp add: bitlen_alt_def)
  have bq: "1 \<le> bitlen q" using q by (simp add: bitlen_alt_def)
  have hi: "(of_int p :: rat) < 2 ^ nat (bitlen p)"
  proof -
    have "p < (2::int) ^ nat (bitlen p)" using bitlen_bounds [OF p] by simp
    then have "(of_int p :: rat) < of_int ((2::int) ^ nat (bitlen p))"
      by (rule iffD2 [OF of_int_less_iff])
    then show ?thesis by simp
  qed
  have lo: "(2::rat) ^ nat (bitlen q - 1) \<le> of_int q"
  proof -
    have "(2::int) ^ nat (bitlen q - 1) \<le> q" using bitlen_bounds [OF q] by simp
    then have "of_int ((2::int) ^ nat (bitlen q - 1)) \<le> (of_int q :: rat)"
      by (rule iffD2 [OF of_int_le_iff])
    then show ?thesis by simp
  qed
  have "of_int p / of_int q < (2::rat) ^ nat (bitlen p) / 2 ^ nat (bitlen q - 1)"
    using hi lo p q by (intro frac_less) simp_all
  also have "\<dots> = 2 powi (d + 1)"
  proof -
    have "d + 1 = int (nat (bitlen p)) - int (nat (bitlen q - 1))" using bp bq by (simp add: d_def)
    then have "(2::rat) powi (d + 1) = 2 powi (int (nat (bitlen p)) - int (nat (bitlen q - 1)))"
      by (rule arg_cong)
    also have "\<dots> = 2 powi int (nat (bitlen p)) / 2 powi int (nat (bitlen q - 1))"
      by (rule power_int_diff) simp
    finally show ?thesis by (simp only: power_int_of_nat)
  qed
  finally have up: "\<bar>x\<bar> < 2 powi (d + 1)" using x by simp
  show ?thesis
  proof (cases "2 powi d \<le> \<bar>x\<bar>")
    case True
    then have "float_exponent x = d" by (simp add: float_exponent_def pq d_def)
    then show ?thesis using up by simp
  next
    case False
    then have "float_exponent x = d - 1" by (simp add: float_exponent_def pq d_def)
    then show ?thesis using False by simp
  qed
qed

lemma rnd_pos:
  assumes "0 < x"
  shows "0 < rnd x"
proof -
  define q where "q = float_exponent x - 52"
  have x0: "x \<noteq> 0" using assms by simp
  have pq: "(0::rat) < 2 powi q" by (simp add: zero_less_power_int)
  have "(2::rat) powi float_exponent x \<le> x" using float_exponent_lower [OF x0] assms by simp
  moreover have "(2::rat) powi float_exponent x = 2 powi q * 2 powi 52"
  proof -
    have "float_exponent x = q + 52" by (simp add: q_def)
    then have "(2::rat) powi float_exponent x = 2 powi (q + 52)" by (rule arg_cong)
    also have "\<dots> = 2 powi q * 2 powi 52" by (rule power_int_add) simp
    finally show ?thesis .
  qed
  ultimately have a: "2 powi q * 2 powi 52 \<le> x" by (simp only:)
  have b: "2 powi q * 1 \<le> 2 powi q * (2::rat) powi 52"
    using pq by (intro mult_left_mono) simp_all
  have "2 powi q * 1 \<le> x" using b a by (rule order_trans)
  then have "1 * 2 powi q \<le> x" by (simp only: mult_1_right mult_1_left)
  then have "1 \<le> x / 2 powi q" using pq by (simp only: pos_le_divide_eq)
  then have "1 \<le> \<lfloor>x / 2 powi q\<rfloor>" by simp
  then have "1 \<le> round_half_even (x / 2 powi q)" using round_half_even_ge_floor [of "x / 2 powi q"] by linarith
  then have "(0::rat) < of_int (round_half_even (x / 2 powi q))" by simp
  then have "0 < of_int (round_half_even (x / 2 powi q)) * (2::rat) powi q" using pq by simp
  then show ?thesis using x0 by (simp add: rnd_def q_def Let_def)
qed

lemma round_half_even_error: "\<bar>of_int (round_half_even y) - y\<bar> \<le> 1 / 2"
proof -
  have "of_int \<lfloor>y\<rfloor> \<le> y" and "y < of_int \<lfloor>y\<rfloor> + 1" by linarith+
  then show ?thesis by (auto simp: round_half_even_def Let_def)
qed

lemma round_half_even_of_int: "round_half_even (of_int k) = k"
  by (simp add: round_half_even_def)

lemma unit_roundoff_pos: "0 < unit_roundoff"
  by (simp add: unit_roundoff_def)

lemma rnd_error: "\<bar>rnd x - x\<bar> \<le> unit_roundoff * \<bar>x\<bar>"
proof (cases "x = 0")
  case True
  then show ?thesis by (simp add: rnd_def)
next
  case False
  define q where "q = float_exponent x - 52"
  define P where "P = (2::rat) powi q"
  define y where "y = x / P"
  have P: "0 < P" by (simp add: P_def zero_less_power_int)
  have r: "rnd x = of_int (round_half_even y) * P"
    using False by (simp add: rnd_def q_def P_def y_def Let_def)
  have x: "y * P = x" using P by (simp add: y_def)
  have "rnd x - x = of_int (round_half_even y) * P - y * P" by (simp only: r x)
  also have "\<dots> = (of_int (round_half_even y) - y) * P" by (simp only: left_diff_distrib)
  finally have "\<bar>rnd x - x\<bar> = \<bar>of_int (round_half_even y) - y\<bar> * P"
    using P by (simp add: abs_mult)
  also have "\<dots> \<le> (1 / 2) * P"
    using round_half_even_error [of y] P by (intro mult_right_mono) simp_all
  also have "\<dots> = unit_roundoff * 2 powi float_exponent x"
  proof -
    have "float_exponent x = q + 52" by (simp add: q_def)
    then have "(2::rat) powi float_exponent x = 2 powi (q + 52)" by (rule arg_cong)
    also have "\<dots> = 2 powi q * 2 powi 52" by (rule power_int_add) simp
    finally show ?thesis by (simp add: P_def unit_roundoff_def)
  qed
  also have "\<dots> \<le> unit_roundoff * \<bar>x\<bar>"
    using float_exponent_lower [OF False] unit_roundoff_pos by (intro mult_left_mono) simp_all
  finally show ?thesis .
qed


lemma rnd_nonneg: "0 \<le> x \<Longrightarrow> 0 \<le> rnd x"
  using rnd_pos [of x] by (cases "x = 0") (simp_all add: rnd_def less_imp_le)


lemma float_exponent_small:
  assumes "0 < n" and "n < 2 ^ 53"
  shows "float_exponent (of_nat n) \<le> 52"
proof (rule ccontr)
  assume "\<not> float_exponent (of_nat n) \<le> 52"
  then have "53 \<le> float_exponent (of_nat n)" by simp
  then have "(2::rat) powi 53 \<le> 2 powi float_exponent (of_nat n)"
    by (intro power_int_increasing) simp_all
  also have "\<dots> \<le> \<bar>of_nat n\<bar>" using assms(1) by (intro float_exponent_lower) simp
  finally have "(2::rat) ^ 53 \<le> of_nat n" by simp
  then have "(of_nat (2 ^ 53) :: rat) \<le> of_nat n" by simp
  then have "(2::nat) ^ 53 \<le> n" by (simp only: of_nat_le_iff)
  then show False using assms(2) by simp
qed

lemma float_of_nat_exact:
  assumes "n < 2 ^ 53"
  shows "float_of_nat n = of_nat n"
proof (cases "n = 0")
  case True
  then show ?thesis by (simp add: float_of_nat_def rnd_def)
next
  case False
  define q where "q = float_exponent (of_nat n) - 52"
  have q: "q \<le> 0" using float_exponent_small [of n] False assms by (simp add: q_def)
  define k where "k = nat (- q)"
  have pq: "(2::rat) powi q = 1 / 2 ^ k"
    using q by (simp add: k_def power_int_def field_simps)
  have "of_nat n / (2::rat) powi q = of_int (int n * 2 ^ k)" by (simp add: pq)
  then have "round_half_even (of_nat n / 2 powi q) = int n * 2 ^ k"
    by (simp only: round_half_even_of_int)
  then have "rnd (of_nat n) = of_int (int n * 2 ^ k) * 2 powi q"
    using False by (simp add: rnd_def q_def Let_def)
  then show ?thesis by (simp add: float_of_nat_def pq)
qed

subsection \<open>The error of a sum and of a mean\<close>

lemma rnd_abs_le: "\<bar>rnd x\<bar> \<le> (1 + unit_roundoff) * \<bar>x\<bar>"
proof -
  have "\<bar>rnd x\<bar> \<le> \<bar>x\<bar> + \<bar>rnd x - x\<bar>" by simp
  also have "\<dots> \<le> \<bar>x\<bar> + unit_roundoff * \<bar>x\<bar>" using rnd_error [of x] by simp
  finally show ?thesis by (simp add: distrib_right)
qed

lemma rnd_compose:
  assumes "0 \<le> M" and "1 \<le> D" and "\<bar>y - M\<bar> \<le> (D - 1) * M"
  shows "\<bar>rnd y - M\<bar> \<le> ((1 + unit_roundoff) * D - 1) * M"
proof -
  have "\<bar>y\<bar> \<le> \<bar>y - M\<bar> + M" using assms(1) by simp
  also have "\<dots> \<le> (D - 1) * M + M" using assms(3) by simp
  also have "\<dots> = D * M" by (simp add: left_diff_distrib)
  finally have y: "\<bar>y\<bar> \<le> D * M" .
  have "unit_roundoff * \<bar>y\<bar> \<le> unit_roundoff * (D * M)"
    using y unit_roundoff_pos by (intro mult_left_mono) simp_all
  then have "\<bar>rnd y - y\<bar> \<le> unit_roundoff * (D * M)" using rnd_error [of y] by linarith
  moreover have "\<bar>rnd y - M\<bar> \<le> \<bar>rnd y - y\<bar> + \<bar>y - M\<bar>" by simp
  ultimately have "\<bar>rnd y - M\<bar> \<le> unit_roundoff * (D * M) + (D - 1) * M"
    using assms(3) by linarith
  also have "\<dots> = ((1 + unit_roundoff) * D - 1) * M" by (simp add: algebra_simps)
  finally show ?thesis .
qed

lemma compensation_bound:
  assumes "0 \<le> a" and "0 \<le> b"
  shows "\<bar>fadd (fsub a (fadd a b)) b\<bar> \<le> 2 * unit_roundoff * (1 + unit_roundoff) ^ 2 * (a + b)"
proof -
  let ?u = unit_roundoff
  define t where "t = rnd (a + b)"
  define d where "d = rnd (a - t)"
  define s where "s = a + b"
  have s0: "0 \<le> s" using assms by (simp add: s_def)
  have u0: "0 \<le> ?u" using unit_roundoff_pos by simp
  have us: "0 \<le> ?u * s" using u0 s0 by simp
  have e1: "\<bar>t - s\<bar> \<le> ?u * s" using rnd_error [of "a + b"] s0 by (simp add: t_def s_def)
  have "\<bar>a - t\<bar> \<le> \<bar>t - s\<bar> + b" unfolding s_def using assms(2) by linarith
  also have "\<dots> \<le> ?u * s + s" using e1 assms by (simp add: s_def)
  finally have at: "\<bar>a - t\<bar> \<le> (1 + ?u) * s" by (simp add: distrib_right)
  have "\<bar>d - (a - t)\<bar> \<le> ?u * \<bar>a - t\<bar>" using rnd_error [of "a - t"] by (simp add: d_def)
  also have "\<dots> \<le> ?u * ((1 + ?u) * s)" using at u0 by (intro mult_left_mono) simp_all
  finally have e2: "\<bar>d - (a - t)\<bar> \<le> ?u * ((1 + ?u) * s)" .
  have "\<bar>d + b\<bar> \<le> \<bar>d - (a - t)\<bar> + \<bar>t - s\<bar>" unfolding s_def by linarith
  also have "\<dots> \<le> ?u * ((1 + ?u) * s) + ?u * s" using e1 e2 by linarith
  also have "\<dots> \<le> ?u * ((1 + ?u) * s) + ?u * ((1 + ?u) * s)"
  proof -
    have "?u * (1 * s) \<le> ?u * ((1 + ?u) * s)"
      using u0 s0 by (intro mult_left_mono mult_right_mono) simp_all
    then have "?u * s \<le> ?u * ((1 + ?u) * s)" by (simp only: mult_1)
    then show ?thesis by (rule add_left_mono)
  qed
  finally have db: "\<bar>d + b\<bar> \<le> 2 * ?u * (1 + ?u) * s" by (simp add: algebra_simps)
  have "\<bar>rnd (d + b)\<bar> \<le> (1 + ?u) * \<bar>d + b\<bar>" by (rule rnd_abs_le)
  also have "\<dots> \<le> (1 + ?u) * (2 * ?u * (1 + ?u) * s)"
    using db u0 by (intro mult_left_mono) simp_all
  also have "\<dots> = 2 * ?u * (1 + ?u) ^ 2 * s" by (simp add: power2_eq_square algebra_simps)
  finally show ?thesis by (simp add: fadd_def fsub_def d_def t_def s_def)
qed

lemma neumaier_step_bound:
  assumes "0 \<le> f" and "0 \<le> x"
  shows "\<exists>inc. neumaier_step (f, c) x = (fadd f x, fadd c inc) \<and>
               \<bar>inc\<bar> \<le> 2 * unit_roundoff * (1 + unit_roundoff) ^ 2 * (f + x)"
proof (cases "\<bar>x\<bar> \<le> \<bar>f\<bar>")
  case True
  then have "neumaier_step (f, c) x = (fadd f x, fadd c (fadd (fsub f (fadd f x)) x))"
    by (simp add: neumaier_step_def Let_def)
  then show ?thesis using compensation_bound [OF assms] by blast
next
  case False
  then have "neumaier_step (f, c) x = (fadd f x, fadd c (fadd (fsub x (fadd x f)) f))"
    by (simp add: neumaier_step_def Let_def fadd_def add.commute)
  then show ?thesis using compensation_bound [OF assms(2) assms(1)] by (auto simp: add.commute)
qed

lemma neumaier_invariant:
  assumes "\<forall>a \<in> set xs. 0 \<le> a"
  shows "\<exists>f c. foldl neumaier_step (0, 0) xs = (f, c) \<and> f = foldl fadd 0 xs \<and> 0 \<le> f \<and>
           \<bar>f - sum_list xs\<bar> \<le> ((1 + unit_roundoff) ^ length xs - 1) * sum_list xs \<and>
           \<bar>c\<bar> \<le> of_nat (length xs) * (2 * unit_roundoff * (1 + unit_roundoff) ^ (length xs + 2)) *
                   sum_list xs"
  using assms
proof (induction xs rule: rev_induct)
  case Nil
  show ?case by simp
next
  case (snoc x xs)
  let ?u = unit_roundoff
  define U where "U = 1 + ?u"
  define n where "n = length xs"
  define A where "A = U ^ n"
  define K where "K = 2 * ?u * U ^ (n + 2)"
  define S where "S = sum_list xs"
  define S' where "S' = S + x"
  have u0: "0 \<le> ?u" using unit_roundoff_pos by simp
  have U1: "1 \<le> U" using u0 by (simp add: U_def)
  have U0: "0 \<le> U" using U1 by simp
  have A1: "1 \<le> A" using U1 by (simp add: A_def one_le_power)
  have K0: "0 \<le> K" using u0 U0 by (simp add: K_def)
  have KA: "K = 2 * ?u * U ^ 2 * A" by (simp add: K_def A_def power_add power2_eq_square)
  have x0: "0 \<le> x" using snoc.prems by simp
  have xs0: "\<forall>a \<in> set xs. 0 \<le> a" using snoc.prems by simp
  have S0: "0 \<le> S" unfolding S_def using xs0 by (intro sum_list_nonneg) simp
  have SS: "S \<le> S'" and S'0: "0 \<le> S'" using x0 S0 by (simp_all add: S'_def)
  have "\<exists>f c. foldl neumaier_step (0, 0) xs = (f, c) \<and> f = foldl fadd 0 xs \<and> 0 \<le> f \<and>
           \<bar>f - S\<bar> \<le> (U ^ n - 1) * S \<and> \<bar>c\<bar> \<le> of_nat n * (2 * ?u * U ^ (n + 2)) * S"
    unfolding U_def n_def S_def by (rule snoc.IH [OF xs0])
  then obtain f c where fc: "foldl neumaier_step (0, 0) xs = (f, c)" and fn: "f = foldl fadd 0 xs"
    and f0: "0 \<le> f" and hf: "\<bar>f - S\<bar> \<le> (A - 1) * S" and hc: "\<bar>c\<bar> \<le> of_nat n * K * S"
    unfolding A_def K_def by blast
  obtain inc where step: "neumaier_step (f, c) x = (fadd f x, fadd c inc)"
    and hinc: "\<bar>inc\<bar> \<le> 2 * ?u * U ^ 2 * (f + x)"
    using neumaier_step_bound [OF f0 x0, of c] unfolding U_def by blast
  have "(A - 1) * S \<le> (A - 1) * S'" using SS A1 by (intro mult_left_mono) simp_all
  then have fx: "\<bar>(f + x) - S'\<bar> \<le> (A - 1) * S'" using hf by (simp add: S'_def)
  have f': "\<bar>fadd f x - S'\<bar> \<le> (U * A - 1) * S'"
    unfolding fadd_def U_def using rnd_compose [OF S'0 A1 fx] by simp
  have "f + x \<le> S' + (A - 1) * S'" using fx by linarith
  also have "\<dots> = A * S'" by (simp add: algebra_simps)
  finally have fxA: "f + x \<le> A * S'" .
  have "2 * ?u * U ^ 2 * (f + x) \<le> 2 * ?u * U ^ 2 * (A * S')"
    using fxA u0 U0 by (intro mult_left_mono) simp_all
  then have inc': "\<bar>inc\<bar> \<le> K * S'" using hinc by (simp add: KA mult.assoc)
  have "of_nat n * K * S \<le> of_nat n * K * S'" using SS K0 by (intro mult_left_mono) simp_all
  then have c1: "\<bar>c\<bar> \<le> of_nat n * K * S'" using hc by linarith
  have "\<bar>c + inc\<bar> \<le> of_nat n * K * S' + K * S'" using c1 inc' by linarith
  also have "\<dots> = of_nat (n + 1) * K * S'" by (simp add: algebra_simps)
  finally have ci: "\<bar>c + inc\<bar> \<le> of_nat (n + 1) * K * S'" .
  have "\<bar>fadd c inc\<bar> \<le> U * \<bar>c + inc\<bar>" unfolding fadd_def U_def by (rule rnd_abs_le)
  also have "\<dots> \<le> U * (of_nat (n + 1) * K * S')" using ci U0 by (intro mult_left_mono) simp_all
  also have "\<dots> = of_nat (n + 1) * (2 * ?u * U ^ (n + 1 + 2)) * S'"
    by (simp add: K_def mult_ac)
  finally have c': "\<bar>fadd c inc\<bar> \<le> of_nat (n + 1) * (2 * ?u * U ^ (n + 1 + 2)) * S'" .
  have res: "foldl neumaier_step (0, 0) (xs @ [x]) = (fadd f x, fadd c inc)"
    by (simp add: fc step)
  have fn': "fadd f x = foldl fadd 0 (xs @ [x])" by (simp add: fn)
  have f'0: "0 \<le> fadd f x" using f0 x0 by (simp add: fadd_def rnd_nonneg)
  have UA: "U * A = U ^ (n + 1)" by (simp add: A_def)
  have "\<exists>f c. foldl neumaier_step (0, 0) (xs @ [x]) = (f, c) \<and> f = foldl fadd 0 (xs @ [x]) \<and>
           0 \<le> f \<and> \<bar>f - S'\<bar> \<le> (U ^ (n + 1) - 1) * S' \<and>
           \<bar>c\<bar> \<le> of_nat (n + 1) * (2 * ?u * U ^ (n + 1 + 2)) * S'"
    using res fn' f'0 f' [unfolded UA] c' by blast
  moreover have "length (xs @ [x]) = n + 1" and "sum_list (xs @ [x]) = S'"
    by (simp_all add: n_def S'_def S_def)
  ultimately show ?case unfolding U_def by (simp only:)
qed

lemma py_sum_error:
  assumes "\<forall>a \<in> set xs. 0 \<le> a"
  shows "\<bar>py_sum xs - sum_list xs\<bar> \<le> ((1 + unit_roundoff) ^ length xs - 1) * sum_list xs"
proof -
  obtain f c where "f = foldl fadd 0 xs"
    and "\<bar>f - sum_list xs\<bar> \<le> ((1 + unit_roundoff) ^ length xs - 1) * sum_list xs"
    using neumaier_invariant [of xs] assms by blast
  then show ?thesis by (simp only: py_sum_def)
qed

lemma py_sum_compensated_error:
  assumes "\<forall>a \<in> set xs. 0 \<le> a"
  shows "\<bar>py_sum_compensated xs - sum_list xs\<bar> \<le>
           ((1 + unit_roundoff) ^ (length xs + 1) +
            of_nat (length xs) * (2 * unit_roundoff * (1 + unit_roundoff) ^ (length xs + 3)) - 1) *
           sum_list xs"
proof -
  let ?u = unit_roundoff
  define U where "U = 1 + ?u"
  define n where "n = length xs"
  define A where "A = U ^ n"
  define K where "K = 2 * ?u * U ^ (n + 2)"
  define S where "S = sum_list xs"
  define D where "D = A + of_nat n * K"
  have u0: "0 \<le> ?u" using unit_roundoff_pos by simp
  have U1: "1 \<le> U" using u0 by (simp add: U_def)
  have U0: "0 \<le> U" using U1 by simp
  have A1: "1 \<le> A" using U1 by (simp add: A_def one_le_power)
  have K0: "0 \<le> K" using u0 U0 by (simp add: K_def)
  have nK: "0 \<le> of_nat n * K" using K0 by simp
  have D1: "1 \<le> D" and AD: "A \<le> D" using A1 nK by (simp_all add: D_def)
  have S0: "0 \<le> S" unfolding S_def using assms by (intro sum_list_nonneg) simp
  have "\<exists>f c. foldl neumaier_step (0, 0) xs = (f, c) \<and> f = foldl fadd 0 xs \<and> 0 \<le> f \<and>
           \<bar>f - S\<bar> \<le> (U ^ n - 1) * S \<and> \<bar>c\<bar> \<le> of_nat n * (2 * ?u * U ^ (n + 2)) * S"
    unfolding U_def n_def S_def using assms by (rule neumaier_invariant)
  then obtain f c where fc: "foldl neumaier_step (0, 0) xs = (f, c)"
    and hf: "\<bar>f - S\<bar> \<le> (A - 1) * S" and hc: "\<bar>c\<bar> \<le> of_nat n * K * S"
    unfolding A_def K_def by blast
  have "\<bar>(f + c) - S\<bar> \<le> (A - 1) * S + of_nat n * K * S" using hf hc by linarith
  also have "\<dots> = (D - 1) * S" by (simp add: D_def algebra_simps)
  finally have fcs: "\<bar>(f + c) - S\<bar> \<le> (D - 1) * S" .
  have r1: "\<bar>fadd f c - S\<bar> \<le> (U * D - 1) * S"
    unfolding fadd_def U_def using rnd_compose [OF S0 D1 fcs] by simp
  have "1 * A \<le> U * D" using AD U1 A1 by (intro mult_mono) simp_all
  then have "(A - 1) * S \<le> (U * D - 1) * S" using S0 by (intro mult_right_mono) simp_all
  then have r2: "\<bar>f - S\<bar> \<le> (U * D - 1) * S" using hf by linarith
  have UD: "U * D = U ^ (n + 1) + of_nat n * (2 * ?u * U ^ (n + 3))"
    by (simp add: D_def A_def K_def distrib_left eval_nat_numeral)
  have "\<bar>py_sum_compensated xs - S\<bar> \<le> (U * D - 1) * S"
    using r1 r2 by (simp add: py_sum_compensated_def fc)
  then have "\<bar>py_sum_compensated xs - S\<bar> \<le>
      (U ^ (n + 1) + of_nat n * (2 * ?u * U ^ (n + 3)) - 1) * S"
    by (simp only: UD)
  then show ?thesis unfolding U_def n_def S_def .
qed

lemma mean_error:
  assumes "xs \<noteq> []" and "length xs < 2 ^ 53" and "0 \<le> sum_list xs" and "1 \<le> D"
    and "\<bar>tot - sum_list xs\<bar> \<le> (D - 1) * sum_list xs"
  shows "\<bar>fdiv tot (float_of_nat (length xs)) - sum_list xs / of_nat (length xs)\<bar> \<le>
           ((1 + unit_roundoff) * D - 1) * (sum_list xs / of_nat (length xs))"
proof -
  let ?n = "of_nat (length xs) :: rat"
  have n: "0 < ?n" using assms(1) by simp
  have M0: "0 \<le> sum_list xs / ?n" using assms(3) n by simp
  have "\<bar>tot / ?n - sum_list xs / ?n\<bar> = \<bar>tot - sum_list xs\<bar> / ?n"
    using n by (simp add: diff_divide_distrib [symmetric])
  also have "\<dots> \<le> (D - 1) * sum_list xs / ?n"
    using assms(5) n by (intro divide_right_mono) simp_all
  finally have "\<bar>tot / ?n - sum_list xs / ?n\<bar> \<le> (D - 1) * (sum_list xs / ?n)" by simp
  from rnd_compose [OF M0 assms(4) this]
  show ?thesis using assms(2) by (simp add: fdiv_def float_of_nat_exact)
qed

lemma py_mean_error:
  assumes "xs \<noteq> []" and "\<forall>a \<in> set xs. 0 \<le> a" and "length xs < 2 ^ 53"
  shows "\<bar>fdiv (py_sum xs) (float_of_nat (length xs)) - sum_list xs / of_nat (length xs)\<bar> \<le>
           ((1 + unit_roundoff) ^ (length xs + 1) - 1) * (sum_list xs / of_nat (length xs))"
proof -
  define U where "U = 1 + unit_roundoff"
  have S0: "0 \<le> sum_list xs" using assms(2) by (intro sum_list_nonneg) simp
  have D1: "1 \<le> U ^ length xs"
    using unit_roundoff_pos unfolding U_def by (intro one_le_power) simp
  have e: "\<bar>py_sum xs - sum_list xs\<bar> \<le> (U ^ length xs - 1) * sum_list xs"
    unfolding U_def using assms(2) by (rule py_sum_error)
  have "\<bar>fdiv (py_sum xs) (float_of_nat (length xs)) - sum_list xs / of_nat (length xs)\<bar> \<le>
        (U * U ^ length xs - 1) * (sum_list xs / of_nat (length xs))"
    unfolding U_def by (rule mean_error [OF assms(1) assms(3) S0 D1 [unfolded U_def] e [unfolded U_def]])
  moreover have "U * U ^ length xs = U ^ (length xs + 1)" by simp
  ultimately show ?thesis unfolding U_def by (simp only:)
qed

lemma py_mean_compensated_error:
  assumes "xs \<noteq> []" and "\<forall>a \<in> set xs. 0 \<le> a" and "length xs < 2 ^ 53"
  shows "\<bar>fdiv (py_sum_compensated xs) (float_of_nat (length xs)) -
            sum_list xs / of_nat (length xs)\<bar> \<le>
           ((1 + unit_roundoff) ^ (length xs + 2) +
            of_nat (length xs) * (2 * unit_roundoff * (1 + unit_roundoff) ^ (length xs + 4)) - 1) *
           (sum_list xs / of_nat (length xs))"
proof -
  define U where "U = 1 + unit_roundoff"
  define n where "n = length xs"
  define D where "D = U ^ (n + 1) + of_nat n * (2 * unit_roundoff * U ^ (n + 3))"
  have U1: "1 \<le> U" using unit_roundoff_pos by (simp add: U_def)
  have S0: "0 \<le> sum_list xs" using assms(2) by (intro sum_list_nonneg) simp
  have "1 \<le> U ^ (n + 1)" using U1 by (intro one_le_power)
  moreover have "0 \<le> of_nat n * (2 * unit_roundoff * U ^ (n + 3))"
    using unit_roundoff_pos U1 by simp
  ultimately have D1: "1 \<le> D" unfolding D_def by linarith
  have UD: "U * D = U ^ (n + 2) + of_nat n * (2 * unit_roundoff * U ^ (n + 4))"
    by (simp add: D_def distrib_left eval_nat_numeral)
  have e: "\<bar>py_sum_compensated xs - sum_list xs\<bar> \<le> (D - 1) * sum_list xs"
    unfolding D_def U_def n_def using assms(2) by (rule py_sum_compensated_error)
  have "\<bar>fdiv (py_sum_compensated xs) (float_of_nat (length xs)) -
            sum_list xs / of_nat (length xs)\<bar> \<le>
        (U * D - 1) * (sum_list xs / of_nat (length xs))"
    unfolding U_def by (rule mean_error [OF assms(1) assms(3) S0 D1 e])
  then have "\<bar>fdiv (py_sum_compensated xs) (float_of_nat (length xs)) -
            sum_list xs / of_nat (length xs)\<bar> \<le>
        (U ^ (n + 2) + of_nat n * (2 * unit_roundoff * U ^ (n + 4)) - 1) *
        (sum_list xs / of_nat (length xs))"
    by (simp only: UD)
  then show ?thesis unfolding U_def n_def .
qed

section \<open>Properties of the recommendation engine\<close>

lemma split_on_not_Nil: "split_on sep s \<noteq> []"
  by (induction s) (auto split: list.splits)

lemma hd_split_on: "hd (split_on sep s) = takeWhile (\<lambda>c. c \<noteq> sep) s"
  by (induction s) (auto split: list.splits simp: split_on_not_Nil)

lemma family_of_takeWhile: "family_of t = takeWhile (\<lambda>c. c \<noteq> CHR ''.'') t"
  by (simp add: family_of_def hd_split_on)

lemma suggest_loop_single:
  "suggest_loop pricing cur cp [t] recs = recs @ suggest_loop pricing cur cp [t] []"
  by (simp add: Let_def split: option.splits)

lemma suggest_loop_Cons:
  "suggest_loop pricing cur cp (t # ts) recs =
   suggest_loop pricing cur cp ts (suggest_loop pricing cur cp [t] recs)"
  by (simp add: Let_def split: option.splits)

lemma suggest_loop_append:
  "suggest_loop pricing cur cp ts recs = recs @ concat (map (\<lambda>t. suggest_loop pricing cur cp [t] []) ts)"
proof (induction ts arbitrary: recs)
  case Nil
  show ?case by simp
next
  case (Cons t ts)
  have "suggest_loop pricing cur cp (t # ts) recs =
        suggest_loop pricing cur cp ts (suggest_loop pricing cur cp [t] recs)"
    by (rule suggest_loop_Cons)
  also have "\<dots> = suggest_loop pricing cur cp [t] recs @
                    concat (map (\<lambda>t. suggest_loop pricing cur cp [t] []) ts)"
    by (rule Cons.IH)
  also have "suggest_loop pricing cur cp [t] recs = recs @ suggest_loop pricing cur cp [t] []"
    by (rule suggest_loop_single)
  finally show ?case by (simp only: append_assoc list.map concat.simps)
qed

lemma suggest_loop_entries:
  "suggest_loop pricing cur (get_instance_type_info pricing cur) ts recs =
   recs @ concat (map (downgrade_entry pricing cur) ts)"
  unfolding downgrade_entry_def by (rule suggest_loop_append)

lemma get_recommendations_structure:
  "get_recommendations pricing instance avg_util max_util =
     (if max_util < 40
      then underutilized_line max_util #
           concat (map (downgrade_entry pricing (InstanceType instance))
                       (potential_types (family_of (InstanceType instance))))
      else []) @
     (if max_util < 10 then [idle_line] else [])"
  by (simp add: get_recommendations_def Let_def suggest_loop_entries del: suggest_loop.simps)

lemma downgrade_entry_self: "downgrade_entry pricing cur cur = []"
  by (simp add: downgrade_entry_def)

lemma downgrade_entry_emit:
  "t \<noteq> cur \<Longrightarrow> get_instance_type_info pricing t = Some n \<Longrightarrow>
   get_instance_type_info pricing cur = Some c \<Longrightarrow> n \<noteq> 0 \<Longrightarrow> c \<noteq> 0 \<Longrightarrow> n < c \<Longrightarrow>
   downgrade_entry pricing cur t = [suggest_line t (fsub c n) (fmul (fdiv (fsub c n) c) 100)]"
  by (simp add: downgrade_entry_def Let_def)

lemma downgrade_entry_line:
  "l \<in> set (downgrade_entry pricing cur t) \<Longrightarrow>
   t \<noteq> cur \<and> (\<exists>n c. get_instance_type_info pricing t = Some n \<and>
     get_instance_type_info pricing cur = Some c \<and> n \<noteq> 0 \<and> c \<noteq> 0 \<and> n < c \<and>
     l = suggest_line t (fsub c n) (fmul (fdiv (fsub c n) c) 100))"
  by (auto simp: downgrade_entry_def Let_def split: option.splits if_splits)

lemma downgrade_entry_unknown:
  "get_instance_type_info pricing cur = None \<Longrightarrow> downgrade_entry pricing cur t = []"
  by (simp add: downgrade_entry_def split: option.splits)

lemma underutilized_not_idle: "underutilized_line v \<noteq> idle_line"
  by (simp add: underutilized_line_def idle_line_def)

lemma suggest_not_idle: "suggest_line t s p \<noteq> idle_line"
  by (simp add: suggest_line_def idle_line_def arrow_down_def)

lemma suggest_not_underutilized: "suggest_line t s p \<noteq> underutilized_line v"
  by (simp add: suggest_line_def underutilized_line_def arrow_down_def)

lemma suggest_line_size_inj:
  assumes "suggest_line (fam @ x) s p = suggest_line (fam @ y) s' p'"
    and "x \<in> {''.large'', ''.medium'', ''.small''}" and "y \<in> {''.large'', ''.medium'', ''.small''}"
  shows "x = y"
  using assms by (auto simp: suggest_line_def)

lemma entry_line_not_idle: "l \<in> set (downgrade_entry pricing cur t) \<Longrightarrow> l \<noteq> idle_line"
  by (auto dest!: downgrade_entry_line simp: suggest_not_idle)

lemma entry_line_not_underutilized:
  "l \<in> set (downgrade_entry pricing cur t) \<Longrightarrow> l \<noteq> underutilized_line v"
  by (auto dest!: downgrade_entry_line simp: suggest_not_underutilized)

lemma concat_map_skip:
  "f c = [] \<Longrightarrow> concat (map f (filter (\<lambda>t. t \<noteq> c) ts)) = concat (map f ts)"
  by (induction ts) auto

lemma potential_types_suffix:
  "t \<in> set (potential_types fam) \<Longrightarrow> \<exists>x \<in> {''.large'', ''.medium'', ''.small''}. t = fam @ x"
  by (auto simp: potential_types_def)

lemma suggest_in_recommendations:
  assumes "max_util < 40" and "t \<in> set (potential_types (family_of (InstanceType instance)))"
  shows "suggest_line t s p \<in> set (get_recommendations pricing instance avg_util max_util) \<longleftrightarrow>
         suggest_line t s p \<in> set (downgrade_entry pricing (InstanceType instance) t)"
proof
  let ?cur = "InstanceType instance"
  let ?fam = "family_of ?cur"
  assume "suggest_line t s p \<in> set (get_recommendations pricing instance avg_util max_util)"
  then have "\<exists>t' \<in> set (potential_types ?fam). suggest_line t s p \<in> set (downgrade_entry pricing ?cur t')"
    using assms(1) suggest_not_idle [of t s p] suggest_not_underutilized [of t s p max_util]
    by (auto simp: get_recommendations_structure split: if_splits)
  then obtain t' where t': "t' \<in> set (potential_types ?fam)"
    and mem: "suggest_line t s p \<in> set (downgrade_entry pricing ?cur t')" by blast
  obtain s' p' where eq: "suggest_line t s p = suggest_line t' s' p'"
    using downgrade_entry_line [OF mem] by blast
  obtain x where x: "x \<in> {''.large'', ''.medium'', ''.small''}" "t = ?fam @ x"
    using potential_types_suffix [OF assms(2)] by blast
  obtain y where y: "y \<in> {''.large'', ''.medium'', ''.small''}" "t' = ?fam @ y"
    using potential_types_suffix [OF t'] by blast
  have "x = y" using suggest_line_size_inj [of ?fam x s p y s' p'] eq x y by simp
  then show "suggest_line t s p \<in> set (downgrade_entry pricing ?cur t)" using mem x y by simp
next
  assume "suggest_line t s p \<in> set (downgrade_entry pricing (InstanceType instance) t)"
  then show "suggest_line t s p \<in> set (get_recommendations pricing instance avg_util max_util)"
    using assms by (auto simp: get_recommendations_structure)
qed

lemma py_join_Cons:
  "py_join sep (x # xs) = x @ (if xs = [] then [] else sep @ py_join sep xs)"
  by (cases xs) simp_all

lemma takeWhile_no_dot: "CHR ''.'' \<notin> set t \<Longrightarrow> takeWhile (\<lambda>c. c \<noteq> CHR ''.'') t = t"
  by (induction t) auto

section \<open>Properties of the sampler\<close>

lemma foldl_max_eq_Max:
  "foldl (\<lambda>m y. if m < y then y else m) x xs = Max (set (x # xs))"
proof (induction xs arbitrary: x)
  case Nil
  show ?case by simp
next
  case (Cons y ys)
  have "Max (set ((if x < y then y else x) # ys)) = Max (set (x # y # ys))"
  proof (cases "ys = []")
    case True
    then show ?thesis by (auto simp: max_def)
  next
    case False
    then show ?thesis by (auto simp: max_def)
  qed
  then show ?case using Cons.IH [of "if x < y then y else x"] by simp
qed

lemma py_max_eq_Max:
  assumes "xs \<noteq> []"
  shows "py_max xs = Max (set xs)"
proof (cases xs)
  case Nil
  then show ?thesis using assms by simp
next
  case (Cons y ys)
  show ?thesis unfolding Cons py_max.simps by (rule foldl_max_eq_Max)
qed


section \<open>Properties of the report assembler\<close>

lemma analyze_loop_step:
  "analyze_loop cloudwatch pricing (i # rest) (results, out) =
   analyze_loop cloudwatch pricing rest
     (results @ fst (analyze_one cloudwatch pricing i), out @ snd (analyze_one cloudwatch pricing i))"
  by (simp add: analyze_one_def Let_def split: sum.splits option.splits prod.splits)

lemma analyze_loop_append:
  "analyze_loop cloudwatch pricing instances (results, out) =
     (results @ concat (map (\<lambda>i. fst (analyze_one cloudwatch pricing i)) instances),
      out @ concat (map (\<lambda>i. snd (analyze_one cloudwatch pricing i)) instances))"
proof (induction instances arbitrary: results out)
  case Nil
  show ?case by simp
next
  case (Cons i rest)
  show ?case
    by (simp only: analyze_loop_step Cons.IH list.map concat.simps append_assoc)
qed

lemma analyze_one_raises:
  "cloudwatch (InstanceId i) 14 = Inl e \<Longrightarrow>
   analyze_one cloudwatch pricing i =
     ([], ['' Analyzing '' @ InstanceId i @ ''...'',
           '' Error with '' @ InstanceId i @ '': '' @ message e])"
  by (simp add: analyze_one_def get_instance_metrics_def Let_def)

lemma analyze_one_no_data:
  "cloudwatch (InstanceId i) 14 = Inr [] \<Longrightarrow>
   analyze_one cloudwatch pricing i =
     ([], ['' Analyzing '' @ InstanceId i @ ''...'', '' No metrics found.''])"
  by (simp add: analyze_one_def get_instance_metrics_def Let_def)

lemma analyze_one_data:
  assumes "cloudwatch (InstanceId i) 14 = Inr datapoints" and "datapoints \<noteq> []"
  shows "\<exists>avg_util max_util.
     get_instance_metrics cloudwatch (InstanceId i) 14 = Inr (Some avg_util, Some max_util) \<and>
     analyze_one cloudwatch pricing i =
       ([\<lparr> row_InstanceId = InstanceId i,
           row_Name = (case Tags i ''Name'' of None \<Rightarrow> [] | Some n \<Rightarrow> n),
           row_InstanceType = InstanceType i,
           row_AvgCPU = py_round avg_util 1,
           row_MaxCPU = py_round max_util 1,
           row_Recommendations =
             render_recommendations (get_recommendations pricing i avg_util max_util) \<rparr>],
        ['' Analyzing '' @ InstanceId i @ ''...''])"
  using assms by (simp add: analyze_one_def get_instance_metrics_def Let_def)

lemma row_ids_of_one:
  "map row_InstanceId (fst (analyze_one cloudwatch pricing i)) =
     (if has_data cloudwatch i then [InstanceId i] else [])"
proof (cases "cloudwatch (InstanceId i) 14")
  case (Inl e)
  then show ?thesis by (simp add: analyze_one_raises has_data_def)
next
  case (Inr datapoints)
  show ?thesis
  proof (cases "datapoints = []")
    case True
    then show ?thesis using Inr by (simp add: analyze_one_no_data has_data_def)
  next
    case False
    from analyze_one_data [of cloudwatch i datapoints pricing, OF Inr False]
    show ?thesis using Inr False by (auto simp: has_data_def)
  qed
qed

lemma row_ids_of_loop:
  "map row_InstanceId (fst (analyze_loop cloudwatch pricing instances ([], []))) =
   map InstanceId (filter (has_data cloudwatch) instances)"
proof -
  have "map row_InstanceId (concat (map (\<lambda>i. fst (analyze_one cloudwatch pricing i)) instances)) =
        map InstanceId (filter (has_data cloudwatch) instances)"
    by (induction instances) (simp_all add: row_ids_of_one)
  then show ?thesis by (simp add: analyze_loop_append del: analyze_loop.simps)
qed

section \<open>The scenarios, evaluated\<close>

lemma float_096: "float_of_decimal (96 / 1000) = 3458764513820541 / 36028797018963968"
  by code_simp

lemma float_048: "float_of_decimal (48 / 1000) = 3458764513820541 / 72057594037927936"
  by code_simp

lemma float_024: "float_of_decimal (24 / 1000) = 3458764513820541 / 144115188075855872"
  by code_simp

lemma float_zero: "float_of_decimal 0 = 0"
  by (simp add: float_of_decimal_def rnd_def)

lemma savings_medium: "fsub (3458764513820541 / 36028797018963968) (3458764513820541 / 72057594037927936) = 3458764513820541 / 72057594037927936"
  by code_simp

lemma savings_small: "fsub (3458764513820541 / 36028797018963968) (3458764513820541 / 144115188075855872) = 1297036692682703 / 18014398509481984"
  by code_simp

lemma percent_medium: "fmul (fdiv (3458764513820541 / 72057594037927936) (3458764513820541 / 36028797018963968)) 100 = 50"
  by code_simp

lemma percent_small: "fmul (fdiv (1297036692682703 / 18014398509481984) (3458764513820541 / 36028797018963968)) 100 = 5277655813324801 / 70368744177664"
  by code_simp

lemma format_35: "format_fixed 1 35 = ''35.0''"
  by code_simp

lemma format_5: "format_fixed 1 5 = ''5.0''"
  by code_simp

lemma format_50: "format_fixed 1 50 = ''50.0''"
  by code_simp

lemma format_75: "format_fixed 1 (5277655813324801 / 70368744177664) = ''75.0''"
  by code_simp

lemma format_005: "format_fixed 2 (3458764513820541 / 72057594037927936) = ''0.05''"
  by code_simp

lemma format_007: "format_fixed 2 (1297036692682703 / 18014398509481984) = ''0.07''"
  by code_simp

lemmas format_one_decimal =
  format_35 [unfolded One_nat_def] format_5 [unfolded One_nat_def]
  format_50 [unfolded One_nat_def] format_75 [unfolded One_nat_def]

lemma price_large:
  "get_instance_type_info m5_catalog ''m5.large'' = Some (3458764513820541 / 36028797018963968)"
  by code_simp

lemma price_medium:
  "get_instance_type_info m5_catalog ''m5.medium'' = Some (3458764513820541 / 72057594037927936)"
  by code_simp

lemma price_small:
  "get_instance_type_info m5_catalog ''m5.small'' = Some (3458764513820541 / 144115188075855872)"
  by code_simp

lemma m5_entry_large: "downgrade_entry m5_catalog ''m5.large'' ''m5.large'' = []"
  by (rule downgrade_entry_self)

lemma m5_entry_medium:
  "downgrade_entry m5_catalog ''m5.large'' ''m5.medium'' =
     [arrow_down @ '' Suggest: m5.medium '' @ arrow_right @ '' Save $0.05/hr (50.0%)'']"
  using downgrade_entry_emit [OF _ price_medium price_large]
  by (simp add: savings_medium percent_medium suggest_line_def format_005 format_one_decimal)

lemma m5_entry_small:
  "downgrade_entry m5_catalog ''m5.large'' ''m5.small'' =
     [arrow_down @ '' Suggest: m5.small '' @ arrow_right @ '' Save $0.07/hr (75.0%)'']"
  using downgrade_entry_emit [OF _ price_small price_large]
  by (simp add: savings_small percent_small suggest_line_def format_007 format_one_decimal)

lemma m5_scenario:
  "get_recommendations m5_catalog m5_large avg_util 35 =
     [''Underutilized (Max CPU: 35.0%)'',
      arrow_down @ '' Suggest: m5.medium '' @ arrow_right @ '' Save $0.05/hr (50.0%)'',
      arrow_down @ '' Suggest: m5.small '' @ arrow_right @ '' Save $0.07/hr (75.0%)'']"
  by (simp add: get_recommendations_structure m5_large_def family_of_takeWhile
        potential_types_def m5_entry_large m5_entry_medium m5_entry_small
        underutilized_line_def format_one_decimal)

lemma bare_unknown: "get_instance_type_info m5_catalog ''m5'' = None"
  by (simp add: get_instance_type_info_def m5_catalog_def)

lemma type_m5_large: "InstanceType m5_large = ''m5.large''"
  by (simp add: m5_large_def)

lemma type_m5_bare: "InstanceType m5_bare = ''m5''"
  by (simp add: m5_bare_def)

lemma bare_price_self:
  "get_instance_type_info bare_catalog ''m5'' = Some (3458764513820541 / 36028797018963968)"
  by code_simp

lemma bare_price_large:
  "get_instance_type_info bare_catalog ''m5.large'' = Some (3458764513820541 / 36028797018963968)"
  by code_simp

lemma bare_price_medium:
  "get_instance_type_info bare_catalog ''m5.medium'' = Some (3458764513820541 / 72057594037927936)"
  by code_simp

lemma bare_price_small:
  "get_instance_type_info bare_catalog ''m5.small'' = Some (3458764513820541 / 144115188075855872)"
  by code_simp

lemma tenth_value: "tenth = 3602879701896397 / 36028797018963968"
  by code_simp

lemma flat_sum:
  "py_sum [3602879701896397 / 36028797018963968, 3602879701896397 / 36028797018963968,
           3602879701896397 / 36028797018963968] = 1351079888211149 / 4503599627370496"
  by code_simp

lemma flat_sum_compensated:
  "py_sum_compensated [3602879701896397 / 36028797018963968, 3602879701896397 / 36028797018963968,
           3602879701896397 / 36028797018963968] = 1351079888211149 / 4503599627370496"
  by code_simp

lemma float_of_nat_two: "float_of_nat (Suc (Suc 0)) = 2"
  by code_simp

lemma float_of_nat_three: "float_of_nat (Suc (Suc (Suc 0))) = 3"
  by code_simp

lemma flat_mean:
  "fdiv (1351079888211149 / 4503599627370496) 3 =
   7205759403792795 / 72057594037927936"
  by code_simp

lemma scenario_mean: "fdiv (py_sum [20, 10]) 2 = 15"
  by code_simp

lemma scenario_sum_compensated: "py_sum_compensated [20, 10] = 30"
  by code_simp

lemma scenario_mean_compensated: "fdiv 30 2 = 15"
  by code_simp

lemma flat_exact_mean:
  "sum_list (map Average flat_datapoints) / of_nat (length flat_datapoints) =
   3602879701896397 / 36028797018963968"
  by (simp add: flat_datapoints_def tenth_value)

lemma scenario_metrics:
  "get_instance_metrics scenario_telemetry ''i-0003'' 14 = Inr (Some 15, Some 35)"
  using scenario_mean
  by (simp add: get_instance_metrics_def scenario_telemetry_def scenario_datapoints_def Let_def
        float_of_nat_two)

lemma round_15: "py_round 15 1 = 15"
  by code_simp

lemma round_35: "py_round 35 1 = 35"
  by code_simp

lemma scenario_rendered:
  "render_recommendations (get_recommendations m5_catalog m5_large 15 35) =
     ''Underutilized (Max CPU: 35.0%)'' @ [CHR 0x0A] @
     arrow_down @ '' Suggest: m5.medium '' @ arrow_right @ '' Save $0.05/hr (50.0%)'' @ [CHR 0x0A] @
     arrow_down @ '' Suggest: m5.small '' @ arrow_right @ '' Save $0.07/hr (75.0%)''"
  by (simp add: m5_scenario render_recommendations_def)

lemma scenario_report:
  "analyze_loop scenario_telemetry m5_catalog scenario_inventory ([], []) =
     ([\<lparr> row_InstanceId = ''i-0003'', row_Name = ''web'', row_InstanceType = ''m5.large'',
          row_AvgCPU = 15, row_MaxCPU = 35,
          row_Recommendations =
            render_recommendations (get_recommendations m5_catalog m5_large 15 35) \<rparr>],
      ['' Analyzing i-0001...'', '' Error with i-0001: Throttling'',
       '' Analyzing i-0002...'', '' No metrics found.'', '' Analyzing i-0003...''])"
proof -
  have a: "analyze_one scenario_telemetry m5_catalog (m5_large \<lparr> InstanceId := ''i-0001'' \<rparr>) =
      ([], ['' Analyzing i-0001...'', '' Error with i-0001: Throttling''])"
    using analyze_one_raises [of scenario_telemetry "m5_large \<lparr> InstanceId := ''i-0001'' \<rparr>"
        "Exn ''Throttling''" m5_catalog]
    by (simp add: scenario_telemetry_def)
  have b: "analyze_one scenario_telemetry m5_catalog (m5_large \<lparr> InstanceId := ''i-0002'' \<rparr>) =
      ([], ['' Analyzing i-0002...'', '' No metrics found.''])"
    using analyze_one_no_data [of scenario_telemetry "m5_large \<lparr> InstanceId := ''i-0002'' \<rparr>"
        m5_catalog]
    by (simp add: scenario_telemetry_def)
  have i: "InstanceId m5_large = ''i-0003''" by (simp add: m5_large_def)
  have c: "analyze_one scenario_telemetry m5_catalog m5_large =
      ([\<lparr> row_InstanceId = ''i-0003'', row_Name = ''web'', row_InstanceType = ''m5.large'',
          row_AvgCPU = 15, row_MaxCPU = 35,
          row_Recommendations =
            render_recommendations (get_recommendations m5_catalog m5_large 15 35) \<rparr>],
       ['' Analyzing i-0003...''])"
    unfolding analyze_one_def analyze_loop.simps i Let_def scenario_metrics
    by (simp add: round_15 [unfolded One_nat_def] round_35 [unfolded One_nat_def] m5_large_def)
  show ?thesis
    unfolding scenario_inventory_def analyze_loop_append by (simp add: a b c)
qed

section \<open>Claims\<close>

text \<open>
  C1, as the code has it. For an underutilized instance (\<open>max_util < 40\<close>) and a candidate
  type of its family other than the current type, a suggestion line for the candidate is in the
  result if and only if the catalogue gives a price for the candidate and for the current
  type, neither price is zero, and the candidate's price is strictly lower. The line then
  carries \<open>savings = current - candidate\<close> (a float subtraction, strictly positive) printed
  with two decimals and \<open>savings / current * 100\<close> printed with one decimal, and it is the
  only line for that candidate.
\<close>

theorem downgrade_suggestion_iff:
  assumes "max_util < 40"
    and "new_type \<in> set (potential_types (family_of (InstanceType instance)))"
    and "new_type \<noteq> InstanceType instance"
  shows
    "((\<exists>s p. suggest_line new_type s p \<in> set (get_recommendations pricing instance avg_util max_util))
        \<longleftrightarrow>
      (\<exists>n c. get_instance_type_info pricing new_type = Some n \<and>
             get_instance_type_info pricing (InstanceType instance) = Some c \<and>
             n \<noteq> 0 \<and> c \<noteq> 0 \<and> n < c)) \<and>
     (\<forall>n c. get_instance_type_info pricing new_type = Some n \<and>
            get_instance_type_info pricing (InstanceType instance) = Some c \<and>
            n \<noteq> 0 \<and> c \<noteq> 0 \<and> n < c \<longrightarrow>
        0 < fsub c n \<and>
        arrow_down @ '' Suggest: '' @ new_type @ '' '' @ arrow_right @ '' Save $'' @
          format_fixed 2 (fsub c n) @ ''/hr ('' @
          format_fixed 1 (fmul (fdiv (fsub c n) c) 100) @ ''%)''
          \<in> set (get_recommendations pricing instance avg_util max_util) \<and>
        (\<forall>s p. suggest_line new_type s p \<in> set (get_recommendations pricing instance avg_util max_util)
           \<longrightarrow> suggest_line new_type s p =
                suggest_line new_type (fsub c n) (fmul (fdiv (fsub c n) c) 100)))"
proof (intro conjI allI impI)
  let ?cur = "InstanceType instance"
  let ?recs = "get_recommendations pricing instance avg_util max_util"
  note mem = suggest_in_recommendations [OF assms(1) assms(2), of _ _ pricing avg_util]
  show "(\<exists>s p. suggest_line new_type s p \<in> set ?recs) \<longleftrightarrow>
        (\<exists>n c. get_instance_type_info pricing new_type = Some n \<and>
               get_instance_type_info pricing ?cur = Some c \<and> n \<noteq> 0 \<and> c \<noteq> 0 \<and> n < c)"
  proof
    assume "\<exists>s p. suggest_line new_type s p \<in> set ?recs"
    then obtain s p where "suggest_line new_type s p \<in> set (downgrade_entry pricing ?cur new_type)"
      using mem by blast
    from downgrade_entry_line [OF this]
    show "\<exists>n c. get_instance_type_info pricing new_type = Some n \<and>
               get_instance_type_info pricing ?cur = Some c \<and> n \<noteq> 0 \<and> c \<noteq> 0 \<and> n < c"
      by blast
  next
    assume "\<exists>n c. get_instance_type_info pricing new_type = Some n \<and>
               get_instance_type_info pricing ?cur = Some c \<and> n \<noteq> 0 \<and> c \<noteq> 0 \<and> n < c"
    then obtain n c where nc: "get_instance_type_info pricing new_type = Some n"
       "get_instance_type_info pricing ?cur = Some c" "n \<noteq> 0" "c \<noteq> 0" "n < c" by blast
    have "suggest_line new_type (fsub c n) (fmul (fdiv (fsub c n) c) 100)
            \<in> set (downgrade_entry pricing ?cur new_type)"
      by (simp add: downgrade_entry_emit [OF assms(3) nc])
    then show "\<exists>s p. suggest_line new_type s p \<in> set ?recs" using mem by blast
  qed
next
  fix n c
  assume h: "get_instance_type_info pricing new_type = Some n \<and>
            get_instance_type_info pricing (InstanceType instance) = Some c \<and>
            n \<noteq> 0 \<and> c \<noteq> 0 \<and> n < c"
  then show "0 < fsub c n" by (simp add: fsub_def rnd_pos)
  have entry: "downgrade_entry pricing (InstanceType instance) new_type =
      [suggest_line new_type (fsub c n) (fmul (fdiv (fsub c n) c) 100)]"
    using h by (intro downgrade_entry_emit [OF assms(3)]) simp_all
  have "suggest_line new_type (fsub c n) (fmul (fdiv (fsub c n) c) 100)
          \<in> set (get_recommendations pricing instance avg_util max_util)"
    using suggest_in_recommendations [OF assms(1) assms(2)] entry by simp
  then show "arrow_down @ '' Suggest: '' @ new_type @ '' '' @ arrow_right @ '' Save $'' @
          format_fixed 2 (fsub c n) @ ''/hr ('' @
          format_fixed 1 (fmul (fdiv (fsub c n) c) 100) @ ''%)''
          \<in> set (get_recommendations pricing instance avg_util max_util)"
    by (simp only: suggest_line_def)
  fix s p
  assume "suggest_line new_type s p \<in> set (get_recommendations pricing instance avg_util max_util)"
  then have "suggest_line new_type s p \<in> set (downgrade_entry pricing (InstanceType instance) new_type)"
    using suggest_in_recommendations [OF assms(1) assms(2)] by blast
  then show "suggest_line new_type s p =
        suggest_line new_type (fsub c n) (fmul (fdiv (fsub c n) c) 100)"
    using entry by simp
qed

text \<open>The scenario of \<^verbatim>\<open>m5.large\<close> at 0.096 USD: the lines for \<^verbatim>\<open>m5.medium\<close> and \<^verbatim>\<open>m5.small\<close>.\<close>

theorem downgrade_suggestion_iff_witness:
  "(35::rat) < 40 \<and>
   ''m5.medium'' \<in> set (potential_types (family_of (InstanceType m5_large))) \<and>
   ''m5.medium'' \<noteq> InstanceType m5_large \<and>
   ''m5.small'' \<in> set (potential_types (family_of (InstanceType m5_large))) \<and>
   ''m5.small'' \<noteq> InstanceType m5_large \<and>
   (0::rat) < 3458764513820541 / 72057594037927936 \<and>
   arrow_down @ '' Suggest: m5.medium '' @ arrow_right @ '' Save $0.05/hr (50.0%)''
     \<in> set (get_recommendations m5_catalog m5_large 20 35) \<and>
   arrow_down @ '' Suggest: m5.small '' @ arrow_right @ '' Save $0.07/hr (75.0%)''
     \<in> set (get_recommendations m5_catalog m5_large 20 35)"
proof -
  have h1: "(35::rat) < 40" by simp
  have m2: "''m5.medium'' \<in> set (potential_types (family_of (InstanceType m5_large)))"
    by (simp add: type_m5_large family_of_takeWhile potential_types_def)
  have m3: "''m5.medium'' \<noteq> InstanceType m5_large" by (simp add: type_m5_large)
  have s2: "''m5.small'' \<in> set (potential_types (family_of (InstanceType m5_large)))"
    by (simp add: type_m5_large family_of_takeWhile potential_types_def)
  have s3: "''m5.small'' \<noteq> InstanceType m5_large" by (simp add: type_m5_large)
  have medium: "get_instance_type_info m5_catalog ''m5.medium'' =
       Some (3458764513820541 / 72057594037927936) \<and>
     get_instance_type_info m5_catalog (InstanceType m5_large) =
       Some (3458764513820541 / 36028797018963968) \<and>
     (3458764513820541 / 72057594037927936 :: rat) \<noteq> 0 \<and>
     (3458764513820541 / 36028797018963968 :: rat) \<noteq> 0 \<and>
     (3458764513820541 / 72057594037927936 :: rat) < 3458764513820541 / 36028797018963968"
    by (simp add: type_m5_large price_medium price_large)
  have small: "get_instance_type_info m5_catalog ''m5.small'' =
       Some (3458764513820541 / 144115188075855872) \<and>
     get_instance_type_info m5_catalog (InstanceType m5_large) =
       Some (3458764513820541 / 36028797018963968) \<and>
     (3458764513820541 / 144115188075855872 :: rat) \<noteq> 0 \<and>
     (3458764513820541 / 36028797018963968 :: rat) \<noteq> 0 \<and>
     (3458764513820541 / 144115188075855872 :: rat) < 3458764513820541 / 36028797018963968"
    by (simp add: type_m5_large price_small price_large)
  have a: "arrow_down @ '' Suggest: m5.medium '' @ arrow_right @ '' Save $0.05/hr (50.0%)''
     \<in> set (get_recommendations m5_catalog m5_large 20 35)"
    using downgrade_suggestion_iff [OF h1 m2 m3, of m5_catalog 20, THEN conjunct2, rule_format,
        OF medium]
    by (simp add: savings_medium percent_medium format_005 format_one_decimal)
  have b: "arrow_down @ '' Suggest: m5.small '' @ arrow_right @ '' Save $0.07/hr (75.0%)''
     \<in> set (get_recommendations m5_catalog m5_large 20 35)"
    using downgrade_suggestion_iff [OF h1 s2 s3, of m5_catalog 20, THEN conjunct2, rule_format,
        OF small]
    by (simp add: savings_small percent_small format_007 format_one_decimal)
  show ?thesis using h1 m2 m3 s2 s3 a b by simp
qed

text \<open>
  C1 as stated fails when a price is \<^verbatim>\<open>0.0\<close>: both prices are resolved and the candidate's
  is strictly lower, yet no suggestion is emitted, because \<^verbatim>\<open>new_price and current_price\<close>
  is false for a zero price.
\<close>

theorem zero_price_counterexample:
  "(35::rat) < 40 \<and>
   get_instance_type_info zero_price_catalog ''m5.large'' =
     Some (3458764513820541 / 36028797018963968) \<and>
   get_instance_type_info zero_price_catalog ''m5.medium'' = Some 0 \<and>
   (0::rat) < 3458764513820541 / 36028797018963968 \<and>
   get_recommendations zero_price_catalog m5_large 20 35 = [''Underutilized (Max CPU: 35.0%)'']"
proof -
  have l: "get_instance_type_info zero_price_catalog ''m5.large'' =
     Some (3458764513820541 / 36028797018963968)" by code_simp
  have m: "get_instance_type_info zero_price_catalog ''m5.medium'' = Some 0" by code_simp
  have s: "get_instance_type_info zero_price_catalog ''m5.small'' = None"
    by (simp add: get_instance_type_info_def zero_price_catalog_def)
  have "get_recommendations zero_price_catalog m5_large 20 35 = [''Underutilized (Max CPU: 35.0%)'']"
    by (simp add: get_recommendations_structure type_m5_large family_of_takeWhile
          potential_types_def downgrade_entry_def l m s underutilized_line_def format_one_decimal)
  then show ?thesis using l m by simp
qed

text \<open>
  C2. The advisory \<^verbatim>\<open>Underutilized (Max CPU: ...)\<close> is in the result if and only if
  \<open>max_util < 40\<close>, with strict inequality; it is then the first line and carries the
  maximum printed with one decimal. When the maximum is not below 40 the result is empty.
  When the current type has no price, the advisory is still there and no suggestion follows
  it.
\<close>

theorem underutilized_iff_below_40:
  "((\<exists>v. underutilized_line v \<in> set (get_recommendations pricing instance avg_util max_util))
      \<longleftrightarrow> max_util < 40) \<and>
   (max_util < 40 \<longrightarrow>
      hd (get_recommendations pricing instance avg_util max_util) =
        ''Underutilized (Max CPU: '' @ format_fixed 1 max_util @ ''%)'') \<and>
   (\<not> max_util < 40 \<longrightarrow> get_recommendations pricing instance avg_util max_util = []) \<and>
   (max_util < 40 \<longrightarrow> get_instance_type_info pricing (InstanceType instance) = None \<longrightarrow>
      get_recommendations pricing instance avg_util max_util =
        underutilized_line max_util # (if max_util < 10 then [idle_line] else []))"
proof (intro conjI impI)
  show "(\<exists>v. underutilized_line v \<in> set (get_recommendations pricing instance avg_util max_util))
      \<longleftrightarrow> max_util < 40"
    by (auto simp: get_recommendations_structure)
  show "hd (get_recommendations pricing instance avg_util max_util) =
        ''Underutilized (Max CPU: '' @ format_fixed 1 max_util @ ''%)''" if "max_util < 40"
    using that by (simp add: get_recommendations_structure underutilized_line_def)
  show "get_recommendations pricing instance avg_util max_util = []" if "\<not> max_util < 40"
    using that by (simp add: get_recommendations_structure)
  show "get_recommendations pricing instance avg_util max_util =
        underutilized_line max_util # (if max_util < 10 then [idle_line] else [])"
    if "max_util < 40" "get_instance_type_info pricing (InstanceType instance) = None"
    using that by (simp add: get_recommendations_structure downgrade_entry_unknown)
qed

text \<open>An instance whose type has no price, at 35 percent; and the boundary 40.\<close>

theorem underutilized_iff_below_40_witness:
  "get_instance_type_info m5_catalog (InstanceType m5_bare) = None \<and>
   get_recommendations m5_catalog m5_bare 20 35 = [''Underutilized (Max CPU: 35.0%)''] \<and>
   get_recommendations m5_catalog m5_large 45 40 = []"
proof -
  have u: "get_instance_type_info m5_catalog (InstanceType m5_bare) = None"
    by (simp add: type_m5_bare bare_unknown)
  show ?thesis
    using underutilized_iff_below_40 [of m5_catalog m5_bare 20 35]
      underutilized_iff_below_40 [of m5_catalog m5_large 45 40] u
    by (simp add: underutilized_line_def format_one_decimal)
qed

text \<open>
  C3. The advisory \<^verbatim>\<open>Consider stopping: appears unused\<close> is in the result if and only
  if \<open>max_util < 10\<close>. It is then the last line of a result whose first line is the
  underutilization advisory: it never stands alone.
\<close>

theorem idle_iff_below_10:
  "(idle_line \<in> set (get_recommendations pricing instance avg_util max_util) \<longleftrightarrow> max_util < 10) \<and>
   (max_util < 10 \<longrightarrow>
      (\<exists>entries. get_recommendations pricing instance avg_util max_util =
         underutilized_line max_util # entries @ [''Consider stopping: appears unused''] \<and>
         idle_line \<notin> set entries))"
proof (intro conjI impI)
  show "idle_line \<in> set (get_recommendations pricing instance avg_util max_util) \<longleftrightarrow> max_util < 10"
    using underutilized_not_idle [of max_util] entry_line_not_idle
    by (auto simp: get_recommendations_structure)
  show "\<exists>entries. get_recommendations pricing instance avg_util max_util =
         underutilized_line max_util # entries @ [''Consider stopping: appears unused''] \<and>
         idle_line \<notin> set entries" if "max_util < 10"
  proof -
    let ?es = "concat (map (downgrade_entry pricing (InstanceType instance))
                       (potential_types (family_of (InstanceType instance))))"
    have "get_recommendations pricing instance avg_util max_util =
          underutilized_line max_util # ?es @ [''Consider stopping: appears unused'']"
      using that by (simp add: get_recommendations_structure idle_line_def)
    moreover have "idle_line \<notin> set ?es" using entry_line_not_idle by auto
    ultimately show ?thesis by blast
  qed
qed

text \<open>At 5 percent the idle advisory is present, at 35 percent it is not.\<close>

theorem idle_iff_below_10_witness:
  "(5::rat) < 10 \<and>
   idle_line \<in> set (get_recommendations m5_catalog m5_large 3 5) \<and>
   idle_line \<notin> set (get_recommendations m5_catalog m5_large 20 35)"
  using idle_iff_below_10 [of m5_catalog m5_large 3 5]
    idle_iff_below_10 [of m5_catalog m5_large 20 35]
  by simp

text \<open>
  C4. For an underutilized instance the result is the advisory, then the entries of the
  candidates \<open>family.large\<close>, \<open>family.medium\<close>, \<open>family.small\<close> in that order, where
  \<open>family\<close> is the part of the type string before its first \<^verbatim>\<open>.\<close> and a candidate
  equal to the current type is skipped, then the idle advisory if it applies. The entry of a
  candidate is at most one line, and that line names the candidate.
\<close>

theorem candidates_in_declared_order:
  assumes "max_util < 40"
  shows "get_recommendations pricing instance avg_util max_util =
           underutilized_line max_util #
           concat (map (downgrade_entry pricing (InstanceType instance))
             (filter (\<lambda>t. t \<noteq> InstanceType instance)
                [takeWhile (\<lambda>c. c \<noteq> CHR ''.'') (InstanceType instance) @ ''.large'',
                 takeWhile (\<lambda>c. c \<noteq> CHR ''.'') (InstanceType instance) @ ''.medium'',
                 takeWhile (\<lambda>c. c \<noteq> CHR ''.'') (InstanceType instance) @ ''.small''])) @
           (if max_util < 10 then [idle_line] else []) \<and>
         (\<forall>t. length (downgrade_entry pricing (InstanceType instance) t) \<le> 1 \<and>
              (\<forall>l \<in> set (downgrade_entry pricing (InstanceType instance) t).
                 \<exists>s p. l = suggest_line t s p))"
proof (intro conjI allI)
  have "concat (map (downgrade_entry pricing (InstanceType instance))
          (filter (\<lambda>t. t \<noteq> InstanceType instance)
             (potential_types (family_of (InstanceType instance))))) =
        concat (map (downgrade_entry pricing (InstanceType instance))
          (potential_types (family_of (InstanceType instance))))"
    by (rule concat_map_skip) (rule downgrade_entry_self)
  then show "get_recommendations pricing instance avg_util max_util =
           underutilized_line max_util #
           concat (map (downgrade_entry pricing (InstanceType instance))
             (filter (\<lambda>t. t \<noteq> InstanceType instance)
                [takeWhile (\<lambda>c. c \<noteq> CHR ''.'') (InstanceType instance) @ ''.large'',
                 takeWhile (\<lambda>c. c \<noteq> CHR ''.'') (InstanceType instance) @ ''.medium'',
                 takeWhile (\<lambda>c. c \<noteq> CHR ''.'') (InstanceType instance) @ ''.small''])) @
           (if max_util < 10 then [idle_line] else [])"
    using assms
    by (simp only: get_recommendations_structure potential_types_def family_of_takeWhile if_True
          append_Cons)
next
  fix t
  show "length (downgrade_entry pricing (InstanceType instance) t) \<le> 1"
    by (simp add: downgrade_entry_def Let_def split: option.splits)
  show "\<forall>l \<in> set (downgrade_entry pricing (InstanceType instance) t). \<exists>s p. l = suggest_line t s p"
    using downgrade_entry_line by blast
qed

text \<open>The scenario of \<^verbatim>\<open>m5.large\<close>: the candidate equal to the current type is skipped.\<close>

theorem candidates_in_declared_order_witness:
  "(35::rat) < 40 \<and>
   get_recommendations m5_catalog m5_large 20 35 =
     [''Underutilized (Max CPU: 35.0%)'',
      arrow_down @ '' Suggest: m5.medium '' @ arrow_right @ '' Save $0.05/hr (50.0%)'',
      arrow_down @ '' Suggest: m5.small '' @ arrow_right @ '' Save $0.07/hr (75.0%)'']"
proof -
  have h: "(35::rat) < 40" by simp
  from candidates_in_declared_order [OF h, of m5_catalog m5_large 20, THEN conjunct1]
  show ?thesis
    by (simp add: type_m5_large m5_entry_medium m5_entry_small underutilized_line_def
          format_one_decimal)
qed

text \<open>
  C5. The loop of the report assembler handles every instance of the inventory and returns.
  The rows of the report are those of the instances for which the sampler has data, in the
  order of the inventory. For an instance whose telemetry query raises, the sampler raises the
  same exception, the loop prints it and adds no row; for an instance without data points
  the sampler returns \<^verbatim>\<open>(None, None)\<close> and the loop adds no row; for an instance with data
  the loop adds one row. With three instances of which the first raises, the second has no
  data and the third succeeds, the report has exactly the row of the third.
\<close>

theorem assembler_skips_failures:
  "map row_InstanceId (fst (analyze_loop cloudwatch pricing instances ([], []))) =
     map InstanceId (filter (has_data cloudwatch) instances) \<and>
   analyze_loop cloudwatch pricing instances ([], []) =
     (concat (map (\<lambda>i. fst (analyze_one cloudwatch pricing i)) instances),
      concat (map (\<lambda>i. snd (analyze_one cloudwatch pricing i)) instances)) \<and>
   (\<forall>i e. cloudwatch (InstanceId i) 14 = Inl e \<longrightarrow>
      get_instance_metrics cloudwatch (InstanceId i) 14 = Inl e \<and>
      analyze_one cloudwatch pricing i =
        ([], ['' Analyzing '' @ InstanceId i @ ''...'',
              '' Error with '' @ InstanceId i @ '': '' @ message e])) \<and>
   (\<forall>i. cloudwatch (InstanceId i) 14 = Inr [] \<longrightarrow>
      get_instance_metrics cloudwatch (InstanceId i) 14 = Inr (None, None) \<and>
      analyze_one cloudwatch pricing i =
        ([], ['' Analyzing '' @ InstanceId i @ ''...'', '' No metrics found.''])) \<and>
   (\<forall>i datapoints. cloudwatch (InstanceId i) 14 = Inr datapoints \<and> datapoints \<noteq> [] \<longrightarrow>
      (\<exists>avg_util max_util.
         get_instance_metrics cloudwatch (InstanceId i) 14 = Inr (Some avg_util, Some max_util) \<and>
         analyze_one cloudwatch pricing i =
           ([\<lparr> row_InstanceId = InstanceId i,
               row_Name = (case Tags i ''Name'' of None \<Rightarrow> [] | Some n \<Rightarrow> n),
               row_InstanceType = InstanceType i,
               row_AvgCPU = py_round avg_util 1,
               row_MaxCPU = py_round max_util 1,
               row_Recommendations =
                 render_recommendations (get_recommendations pricing i avg_util max_util) \<rparr>],
            ['' Analyzing '' @ InstanceId i @ ''...'']))) \<and>
   (\<forall>i1 i2 i3 e datapoints.
      cloudwatch (InstanceId i1) 14 = Inl e \<and> cloudwatch (InstanceId i2) 14 = Inr [] \<and>
      cloudwatch (InstanceId i3) 14 = Inr datapoints \<and> datapoints \<noteq> [] \<longrightarrow>
      map row_InstanceId (fst (analyze_loop cloudwatch pricing [i1, i2, i3] ([], []))) =
        [InstanceId i3] \<and>
      (\<exists>row. analyze_instances cloudwatch pricing [i1, i2, i3] = Some [row]))"
proof (intro conjI allI impI)
  show "map row_InstanceId (fst (analyze_loop cloudwatch pricing instances ([], []))) =
     map InstanceId (filter (has_data cloudwatch) instances)"
    by (rule row_ids_of_loop)
  show "analyze_loop cloudwatch pricing instances ([], []) =
     (concat (map (\<lambda>i. fst (analyze_one cloudwatch pricing i)) instances),
      concat (map (\<lambda>i. snd (analyze_one cloudwatch pricing i)) instances))"
    by (simp add: analyze_loop_append del: analyze_loop.simps)
next
  fix i :: ec2_instance and e assume "cloudwatch (InstanceId i) 14 = Inl e"
  then show "get_instance_metrics cloudwatch (InstanceId i) 14 = Inl e"
    and "analyze_one cloudwatch pricing i =
        ([], ['' Analyzing '' @ InstanceId i @ ''...'',
              '' Error with '' @ InstanceId i @ '': '' @ message e])"
    by (simp_all add: analyze_one_raises get_instance_metrics_def)
next
  fix i :: ec2_instance assume "cloudwatch (InstanceId i) 14 = Inr []"
  then show "get_instance_metrics cloudwatch (InstanceId i) 14 = Inr (None, None)"
    and "analyze_one cloudwatch pricing i =
        ([], ['' Analyzing '' @ InstanceId i @ ''...'', '' No metrics found.''])"
    by (simp_all add: analyze_one_no_data get_instance_metrics_def)
next
  fix i :: ec2_instance and datapoints
  assume "cloudwatch (InstanceId i) 14 = Inr datapoints \<and> datapoints \<noteq> []"
  then show "\<exists>avg_util max_util.
         get_instance_metrics cloudwatch (InstanceId i) 14 = Inr (Some avg_util, Some max_util) \<and>
         analyze_one cloudwatch pricing i =
           ([\<lparr> row_InstanceId = InstanceId i,
               row_Name = (case Tags i ''Name'' of None \<Rightarrow> [] | Some n \<Rightarrow> n),
               row_InstanceType = InstanceType i,
               row_AvgCPU = py_round avg_util 1,
               row_MaxCPU = py_round max_util 1,
               row_Recommendations =
                 render_recommendations (get_recommendations pricing i avg_util max_util) \<rparr>],
            ['' Analyzing '' @ InstanceId i @ ''...''])"
    using analyze_one_data by blast
next
  fix i1 i2 i3 :: ec2_instance and e datapoints
  assume h: "cloudwatch (InstanceId i1) 14 = Inl e \<and> cloudwatch (InstanceId i2) 14 = Inr [] \<and>
      cloudwatch (InstanceId i3) 14 = Inr datapoints \<and> datapoints \<noteq> []"
  then show ids: "map row_InstanceId (fst (analyze_loop cloudwatch pricing [i1, i2, i3] ([], []))) =
        [InstanceId i3]"
    by (simp add: row_ids_of_loop has_data_def del: analyze_loop.simps)
  obtain a m where "analyze_one cloudwatch pricing i3 =
      ([\<lparr> row_InstanceId = InstanceId i3,
           row_Name = (case Tags i3 ''Name'' of None \<Rightarrow> [] | Some n \<Rightarrow> n),
           row_InstanceType = InstanceType i3,
           row_AvgCPU = py_round a 1,
           row_MaxCPU = py_round m 1,
           row_Recommendations = render_recommendations (get_recommendations pricing i3 a m) \<rparr>],
        ['' Analyzing '' @ InstanceId i3 @ ''...''])"
    using analyze_one_data [of cloudwatch i3 datapoints pricing] h by blast
  then show "\<exists>row. analyze_instances cloudwatch pricing [i1, i2, i3] = Some [row]"
    using h by (simp add: analyze_instances_def analyze_loop_append analyze_one_raises
          analyze_one_no_data del: analyze_loop.simps)
qed

text \<open>The inventory of three instances, with the lines printed and the report returned.\<close>

theorem assembler_skips_failures_witness:
  "scenario_telemetry ''i-0001'' 14 = Inl (Exn ''Throttling'') \<and>
   scenario_telemetry ''i-0002'' 14 = Inr [] \<and>
   scenario_telemetry ''i-0003'' 14 = Inr scenario_datapoints \<and> scenario_datapoints \<noteq> [] \<and>
   map InstanceId scenario_inventory = [''i-0001'', ''i-0002'', ''i-0003''] \<and>
   map row_InstanceId (fst (analyze_loop scenario_telemetry m5_catalog scenario_inventory ([], []))) =
     [''i-0003''] \<and>
   snd (analyze_loop scenario_telemetry m5_catalog scenario_inventory ([], [])) =
     ['' Analyzing i-0001...'', '' Error with i-0001: Throttling'',
      '' Analyzing i-0002...'', '' No metrics found.'', '' Analyzing i-0003...''] \<and>
   analyze_instances scenario_telemetry m5_catalog scenario_inventory =
     Some [\<lparr> row_InstanceId = ''i-0003'', row_Name = ''web'', row_InstanceType = ''m5.large'',
             row_AvgCPU = 15, row_MaxCPU = 35,
             row_Recommendations =
               ''Underutilized (Max CPU: 35.0%)'' @ [CHR 0x0A] @
               arrow_down @ '' Suggest: m5.medium '' @ arrow_right @ '' Save $0.05/hr (50.0%)'' @
               [CHR 0x0A] @
               arrow_down @ '' Suggest: m5.small '' @ arrow_right @ '' Save $0.07/hr (75.0%)'' \<rparr>]"
proof -
  have ids: "map row_InstanceId
      (fst (analyze_loop scenario_telemetry m5_catalog scenario_inventory ([], []))) = [''i-0003'']"
    using assembler_skips_failures [of scenario_telemetry m5_catalog scenario_inventory,
        THEN conjunct1]
    by (simp add: scenario_inventory_def has_data_def scenario_telemetry_def m5_large_def
          scenario_datapoints_def del: analyze_loop.simps)
  have t: "scenario_telemetry ''i-0001'' 14 = Inl (Exn ''Throttling'') \<and>
      scenario_telemetry ''i-0002'' 14 = Inr [] \<and>
      scenario_telemetry ''i-0003'' 14 = Inr scenario_datapoints \<and> scenario_datapoints \<noteq> [] \<and>
      map InstanceId scenario_inventory = [''i-0001'', ''i-0002'', ''i-0003'']"
    by (simp add: scenario_telemetry_def scenario_datapoints_def scenario_inventory_def
          m5_large_def)
  show ?thesis
    using ids t
    by (simp add: analyze_instances_def scenario_report scenario_rendered del: analyze_loop.simps)
qed

text \<open>
  C6, as the code has it. The sampler returns \<^verbatim>\<open>(None, None)\<close> if and only if the
  telemetry source returns no data point, and it raises what the source raises. Otherwise it
  returns the largest of the daily maxima and, as the average, the float quotient of
  \<^verbatim>\<open>sum\<close> of the daily averages by their number: the mean as floating point computes
  it, with either \<^verbatim>\<open>sum\<close>. For daily averages that are not negative (and fewer than
  \<open>2 ^ 53\<close>) it differs from the exact arithmetic mean by a relative error of at most
  \<open>(1 + 2 ^ -53) ^ (n + 1) - 1\<close> with the plain sum, and of at most
  \<open>(1 + 2 ^ -53) ^ (n + 2) + 2 * n * 2 ^ -53 * (1 + 2 ^ -53) ^ (n + 4) - 1\<close> with the
  compensated sum, for \<open>n\<close> data points.
\<close>

theorem sampler_float_mean_and_max:
  "(get_instance_metrics cloudwatch instance_id days = Inr (None, None)
      \<longleftrightarrow> cloudwatch instance_id days = Inr []) \<and>
   (get_instance_metrics_compensated cloudwatch instance_id days = Inr (None, None)
      \<longleftrightarrow> cloudwatch instance_id days = Inr []) \<and>
   (\<forall>e. cloudwatch instance_id days = Inl e \<longrightarrow>
      get_instance_metrics cloudwatch instance_id days = Inl e \<and>
      get_instance_metrics_compensated cloudwatch instance_id days = Inl e) \<and>
   (\<forall>datapoints. cloudwatch instance_id days = Inr datapoints \<and> datapoints \<noteq> [] \<longrightarrow>
      get_instance_metrics cloudwatch instance_id days =
        Inr (Some (fdiv (foldl fadd 0 (map Average datapoints))
                        (float_of_nat (length datapoints))),
             Some (Max (set (map Maximum datapoints)))) \<and>
      get_instance_metrics_compensated cloudwatch instance_id days =
        Inr (Some (fdiv (py_sum_compensated (map Average datapoints))
                        (float_of_nat (length datapoints))),
             Some (Max (set (map Maximum datapoints)))) \<and>
      ((\<forall>d \<in> set datapoints. 0 \<le> Average d) \<and> length datapoints < 2 ^ 53 \<longrightarrow>
         \<bar>fdiv (foldl fadd 0 (map Average datapoints)) (float_of_nat (length datapoints)) -
            sum_list (map Average datapoints) / of_nat (length datapoints)\<bar>
           \<le> ((1 + unit_roundoff) ^ (length datapoints + 1) - 1) *
              (sum_list (map Average datapoints) / of_nat (length datapoints)) \<and>
         \<bar>fdiv (py_sum_compensated (map Average datapoints)) (float_of_nat (length datapoints)) -
            sum_list (map Average datapoints) / of_nat (length datapoints)\<bar>
           \<le> ((1 + unit_roundoff) ^ (length datapoints + 2) +
               of_nat (length datapoints) *
                 (2 * unit_roundoff * (1 + unit_roundoff) ^ (length datapoints + 4)) - 1) *
              (sum_list (map Average datapoints) / of_nat (length datapoints))))"
proof (intro conjI allI impI)
  show "get_instance_metrics cloudwatch instance_id days = Inr (None, None)
      \<longleftrightarrow> cloudwatch instance_id days = Inr []"
    by (auto simp: get_instance_metrics_def Let_def split: sum.splits)
  show "get_instance_metrics_compensated cloudwatch instance_id days = Inr (None, None)
      \<longleftrightarrow> cloudwatch instance_id days = Inr []"
    by (auto simp: get_instance_metrics_compensated_def Let_def split: sum.splits)
next
  fix e assume "cloudwatch instance_id days = Inl e"
  then show "get_instance_metrics cloudwatch instance_id days = Inl e"
    and "get_instance_metrics_compensated cloudwatch instance_id days = Inl e"
    by (simp_all add: get_instance_metrics_def get_instance_metrics_compensated_def)
next
  fix datapoints
  assume "cloudwatch instance_id days = Inr datapoints \<and> datapoints \<noteq> []"
  then show "get_instance_metrics cloudwatch instance_id days =
        Inr (Some (fdiv (foldl fadd 0 (map Average datapoints))
                        (float_of_nat (length datapoints))),
             Some (Max (set (map Maximum datapoints))))"
    and "get_instance_metrics_compensated cloudwatch instance_id days =
        Inr (Some (fdiv (py_sum_compensated (map Average datapoints))
                        (float_of_nat (length datapoints))),
             Some (Max (set (map Maximum datapoints))))"
    by (simp_all add: get_instance_metrics_def get_instance_metrics_compensated_def Let_def
          py_sum_def py_max_eq_Max)
next
  fix datapoints
  assume d: "cloudwatch instance_id days = Inr datapoints \<and> datapoints \<noteq> []"
    and h: "(\<forall>d \<in> set datapoints. 0 \<le> Average d) \<and> length datapoints < 2 ^ 53"
  have ne: "map Average datapoints \<noteq> []" using d by simp
  have nonneg: "\<forall>a \<in> set (map Average datapoints). 0 \<le> a" using h by simp
  have small: "length (map Average datapoints) < 2 ^ 53" using h by simp
  from py_mean_error [OF ne nonneg small]
  show "\<bar>fdiv (foldl fadd 0 (map Average datapoints)) (float_of_nat (length datapoints)) -
            sum_list (map Average datapoints) / of_nat (length datapoints)\<bar>
           \<le> ((1 + unit_roundoff) ^ (length datapoints + 1) - 1) *
              (sum_list (map Average datapoints) / of_nat (length datapoints))"
    by (simp only: py_sum_def length_map)
  from py_mean_compensated_error [OF ne nonneg small]
  show "\<bar>fdiv (py_sum_compensated (map Average datapoints)) (float_of_nat (length datapoints)) -
            sum_list (map Average datapoints) / of_nat (length datapoints)\<bar>
           \<le> ((1 + unit_roundoff) ^ (length datapoints + 2) +
               of_nat (length datapoints) *
                 (2 * unit_roundoff * (1 + unit_roundoff) ^ (length datapoints + 4)) - 1) *
              (sum_list (map Average datapoints) / of_nat (length datapoints))"
    by (simp only: length_map)
qed

text \<open>The three cases, on the telemetry of the three-instance inventory, for both samplers.\<close>

theorem sampler_float_mean_and_max_witness:
  "scenario_telemetry ''i-0003'' 14 = Inr scenario_datapoints \<and> scenario_datapoints \<noteq> [] \<and>
   get_instance_metrics scenario_telemetry ''i-0003'' 14 = Inr (Some 15, Some 35) \<and>
   get_instance_metrics_compensated scenario_telemetry ''i-0003'' 14 = Inr (Some 15, Some 35) \<and>
   get_instance_metrics scenario_telemetry ''i-0002'' 14 = Inr (None, None) \<and>
   get_instance_metrics_compensated scenario_telemetry ''i-0002'' 14 = Inr (None, None) \<and>
   get_instance_metrics scenario_telemetry ''i-0001'' 14 = Inl (Exn ''Throttling'') \<and>
   get_instance_metrics_compensated scenario_telemetry ''i-0001'' 14 = Inl (Exn ''Throttling'')"
proof -
  have d: "scenario_telemetry ''i-0003'' 14 = Inr scenario_datapoints \<and> scenario_datapoints \<noteq> []"
    by (simp add: scenario_telemetry_def scenario_datapoints_def)
  have e: "scenario_telemetry ''i-0002'' 14 = Inr []" by (simp add: scenario_telemetry_def)
  have r: "scenario_telemetry ''i-0001'' 14 = Inl (Exn ''Throttling'')"
    by (simp add: scenario_telemetry_def)
  have mean: "fdiv (foldl fadd 0 (map Average scenario_datapoints))
                (float_of_nat (length scenario_datapoints)) = 15"
    using scenario_mean by (simp add: scenario_datapoints_def py_sum_def float_of_nat_two)
  have mean': "fdiv (py_sum_compensated (map Average scenario_datapoints))
                (float_of_nat (length scenario_datapoints)) = 15"
    by (simp add: scenario_datapoints_def scenario_sum_compensated float_of_nat_two
          scenario_mean_compensated)
  have mx: "Max (set (map Maximum scenario_datapoints)) = 35"
    by (simp add: scenario_datapoints_def)
  note T = sampler_float_mean_and_max [of scenario_telemetry _ 14]
  have a: "get_instance_metrics scenario_telemetry ''i-0003'' 14 = Inr (Some 15, Some 35) \<and>
      get_instance_metrics_compensated scenario_telemetry ''i-0003'' 14 = Inr (Some 15, Some 35)"
    using T [of "''i-0003''", THEN conjunct2, THEN conjunct2, THEN conjunct2, rule_format, OF d]
    by (simp only: mean mean' mx)
  have b: "get_instance_metrics scenario_telemetry ''i-0002'' 14 = Inr (None, None) \<and>
      get_instance_metrics_compensated scenario_telemetry ''i-0002'' 14 = Inr (None, None)"
    using T [of "''i-0002''"] e by simp
  have c: "get_instance_metrics scenario_telemetry ''i-0001'' 14 = Inl (Exn ''Throttling'') \<and>
      get_instance_metrics_compensated scenario_telemetry ''i-0001'' 14 = Inl (Exn ''Throttling'')"
    using T [of "''i-0001''", THEN conjunct2, THEN conjunct2, THEN conjunct1, rule_format, OF r]
    by simp
  show ?thesis using d a b c by simp
qed

text \<open>
  C6 as stated fails: the average is not always the arithmetic mean. For three days with
  average \<^verbatim>\<open>0.1\<close> the exact mean is the float \<^verbatim>\<open>0.1\<close>, and the sampler returns
  \<^verbatim>\<open>0.10000000000000002\<close>, with either \<^verbatim>\<open>sum\<close>.
\<close>

theorem computed_mean_not_exact_counterexample:
  "flat_telemetry ''i-0003'' 14 = Inr flat_datapoints \<and> flat_datapoints \<noteq> [] \<and>
   sum_list (map Average flat_datapoints) / of_nat (length flat_datapoints) =
     3602879701896397 / 36028797018963968 \<and>
   get_instance_metrics flat_telemetry ''i-0003'' 14 =
     Inr (Some (7205759403792795 / 72057594037927936),
          Some (3602879701896397 / 36028797018963968)) \<and>
   get_instance_metrics_compensated flat_telemetry ''i-0003'' 14 =
     Inr (Some (7205759403792795 / 72057594037927936),
          Some (3602879701896397 / 36028797018963968)) \<and>
   (7205759403792795 / 72057594037927936 :: rat) \<noteq> 3602879701896397 / 36028797018963968"
proof -
  have "get_instance_metrics flat_telemetry ''i-0003'' 14 =
     Inr (Some (7205759403792795 / 72057594037927936),
          Some (3602879701896397 / 36028797018963968))"
    by (simp add: get_instance_metrics_def flat_telemetry_def flat_datapoints_def tenth_value
          flat_sum flat_mean float_of_nat_three Let_def)
  moreover have "get_instance_metrics_compensated flat_telemetry ''i-0003'' 14 =
     Inr (Some (7205759403792795 / 72057594037927936),
          Some (3602879701896397 / 36028797018963968))"
    by (simp add: get_instance_metrics_compensated_def flat_telemetry_def flat_datapoints_def
          tenth_value flat_sum_compensated flat_mean float_of_nat_three Let_def)
  moreover have "flat_telemetry ''i-0003'' 14 = Inr flat_datapoints \<and> flat_datapoints \<noteq> []"
    by (simp add: flat_telemetry_def flat_datapoints_def)
  ultimately show ?thesis
    by (simp add: flat_exact_mean)
qed




text \<open>
  C8, as the code has it. When \<open>max_util\<close> is at least 40 the engine returns the empty list;
  it has no other value for "no recommendation". The report assembler renders a list of
  recommendations as the marker \<^verbatim>\<open>No recommendations\<close> (after U+2705) exactly in that
  case.
\<close>

theorem marker_for_empty_list:
  "(40 \<le> max_util \<longrightarrow> get_recommendations pricing instance avg_util max_util = []) \<and>
   (render_recommendations (get_recommendations pricing instance avg_util max_util) =
      [CHR 0xE2, CHR 0x9C, CHR 0x85] @ '' No recommendations'' \<longleftrightarrow> 40 \<le> max_util)"
proof (cases "max_util < 40")
  case True
  then show ?thesis
    by (simp add: get_recommendations_structure render_recommendations_def py_join_Cons
          underutilized_line_def)
next
  case False
  then show ?thesis
    by (simp add: get_recommendations_structure render_recommendations_def no_recommendations_def)
qed

text \<open>At 60 percent the marker is rendered, at 35 percent it is not.\<close>

theorem marker_for_empty_list_witness:
  "(40::rat) \<le> 60 \<and> get_recommendations m5_catalog m5_large 60 60 = [] \<and>
   render_recommendations (get_recommendations m5_catalog m5_large 60 60) = no_recommendations \<and>
   render_recommendations (get_recommendations m5_catalog m5_large 20 35) \<noteq> no_recommendations"
  using marker_for_empty_list [of 60 m5_catalog m5_large 60]
    marker_for_empty_list [of 35 m5_catalog m5_large 20]
  by (simp add: no_recommendations_def render_recommendations_def)

text \<open>C8 as stated fails: at 60 percent the engine returns the empty sequence itself.\<close>

theorem engine_returns_empty_list_counterexample:
  "(40::rat) \<le> 60 \<and> get_recommendations m5_catalog m5_large 60 60 = []"
  by (simp add: get_recommendations_def)

text \<open>
  C9, as the code has it. For a type string without \<^verbatim>\<open>.\<close> the family is the whole
  string, and the engine returns a result. The three candidates are still built from it,
  none of them is the current type, and each is priced as usual; when the catalogue has no
  price for the current type, no suggestion is emitted.
\<close>

theorem no_delimiter_family:
  assumes "CHR ''.'' \<notin> set (InstanceType instance)"
  shows "family_of (InstanceType instance) = InstanceType instance \<and>
         potential_types (family_of (InstanceType instance)) =
           [InstanceType instance @ ''.large'', InstanceType instance @ ''.medium'',
            InstanceType instance @ ''.small''] \<and>
         InstanceType instance \<notin> set (potential_types (family_of (InstanceType instance))) \<and>
         (max_util < 40 \<longrightarrow>
            get_recommendations pricing instance avg_util max_util =
              underutilized_line max_util #
              (downgrade_entry pricing (InstanceType instance) (InstanceType instance @ ''.large'') @
               downgrade_entry pricing (InstanceType instance) (InstanceType instance @ ''.medium'') @
               downgrade_entry pricing (InstanceType instance) (InstanceType instance @ ''.small'')) @
              (if max_util < 10 then [idle_line] else [])) \<and>
         (max_util < 40 \<longrightarrow> get_instance_type_info pricing (InstanceType instance) = None \<longrightarrow>
            get_recommendations pricing instance avg_util max_util =
              underutilized_line max_util # (if max_util < 10 then [idle_line] else []))"
proof -
  have fam: "family_of (InstanceType instance) = InstanceType instance"
    using assms by (simp add: family_of_takeWhile takeWhile_no_dot)
  show ?thesis
    by (simp add: fam potential_types_def get_recommendations_structure downgrade_entry_unknown)
qed

text \<open>The type \<^verbatim>\<open>m5\<close>, for which the catalogue of the scenario has no price.\<close>

theorem no_delimiter_family_witness:
  "CHR ''.'' \<notin> set (InstanceType m5_bare) \<and>
   family_of (InstanceType m5_bare) = ''m5'' \<and>
   get_recommendations m5_catalog m5_bare 20 35 = [''Underutilized (Max CPU: 35.0%)'']"
proof -
  have h: "CHR ''.'' \<notin> set (InstanceType m5_bare)" by (simp add: type_m5_bare)
  have u: "get_instance_type_info m5_catalog (InstanceType m5_bare) = None"
    by (simp add: type_m5_bare bare_unknown)
  show ?thesis
    using no_delimiter_family [OF h, of 35 m5_catalog 20] h u
    by (simp add: type_m5_bare underutilized_line_def format_one_decimal
          downgrade_entry_unknown bare_unknown)
qed

text \<open>
  C9 as stated fails: with a catalogue that has a price for the type \<^verbatim>\<open>m5\<close>, the
  candidates \<^verbatim>\<open>m5.medium\<close> and \<^verbatim>\<open>m5.small\<close> are suggested.
\<close>

theorem no_delimiter_counterexample:
  "CHR ''.'' \<notin> set (InstanceType m5_bare) \<and> (35::rat) < 40 \<and>
   get_recommendations bare_catalog m5_bare 20 35 =
     [''Underutilized (Max CPU: 35.0%)'',
      arrow_down @ '' Suggest: m5.medium '' @ arrow_right @ '' Save $0.05/hr (50.0%)'',
      arrow_down @ '' Suggest: m5.small '' @ arrow_right @ '' Save $0.07/hr (75.0%)'']"
proof -
  have l: "downgrade_entry bare_catalog ''m5'' ''m5.large'' = []"
    by (simp add: downgrade_entry_def bare_price_self bare_price_large)
  have m: "downgrade_entry bare_catalog ''m5'' ''m5.medium'' =
      [arrow_down @ '' Suggest: m5.medium '' @ arrow_right @ '' Save $0.05/hr (50.0%)'']"
    using downgrade_entry_emit [OF _ bare_price_medium bare_price_self]
    by (simp add: savings_medium percent_medium suggest_line_def format_005 format_one_decimal)
  have s: "downgrade_entry bare_catalog ''m5'' ''m5.small'' =
      [arrow_down @ '' Suggest: m5.small '' @ arrow_right @ '' Save $0.07/hr (75.0%)'']"
    using downgrade_entry_emit [OF _ bare_price_small bare_price_self]
    by (simp add: savings_small percent_small suggest_line_def format_007 format_one_decimal)
  show ?thesis
    by (simp add: get_recommendations_structure type_m5_bare family_of_takeWhile
          potential_types_def l m s underutilized_line_def format_one_decimal)
qed

text \<open>
  C10. The recommendations do not depend on the average utilization: for every catalogue,
  instance and maximum, two calls that differ only in the average return the same list.
\<close>

theorem recommendations_ignore_average:
  "get_recommendations pricing instance a1 max_util =
   get_recommendations pricing instance a2 max_util"
  by (simp add: get_recommendations_def)

end
